theory Spec2Isabelle
  imports Complex_Main "HOL-Library.Product_Lexorder"
begin

section \<open>Market data store: \<open>poptimizer/store/moex.py\<close>\<close>

subsection \<open>Exceptions\<close>

text \<open>
  A raised exception is a value: \<open>Inl e\<close> in the result of the function that raises it.
  \<open>POptimizerError\<close> is the repository's own exception class (\<open>poptimizer.config\<close>) and
  carries its message; the others are the built-in exceptions that indexing, key lookup,
  attribute lookup and arithmetic raise.  \<open>ExternalError\<close> stands for whatever a library
  outside the repository raises (the exchange client, \<open>pandas\<close>), with its message.
\<close>

datatype error =
    POptimizerError string
  | IndexError
  | KeyError string
  | AttributeError string
  | TypeError
  | ExternalError string

subsection \<open>The item check of the data managers' \<open>_download\<close>\<close>

text \<open>The names under which the managers keep their data.\<close>

definition SECURITIES :: string where "SECURITIES = ''securities''"
definition LISTING :: string where "LISTING = ''listing''"
definition INDEX :: string where "INDEX = ''MCFTRR''"

text \<open>
  The constant text of the message, as its UTF-8 bytes followed by a blank: the Russian for
  ``data are missing'', which the f-string puts in front of the collection's full name.
\<close>

definition no_data_text :: string where
  "no_data_text =
     [CHR 0xD0, CHR 0x9E, CHR 0xD1, CHR 0x82, CHR 0xD1, CHR 0x81, CHR 0xD1, CHR 0x83,
      CHR 0xD1, CHR 0x82, CHR 0xD1, CHR 0x81, CHR 0xD1, CHR 0x82, CHR 0xD0, CHR 0xB2,
      CHR 0xD1, CHR 0x83, CHR 0xD1, CHR 0x8E, CHR 0xD1, CHR 0x82, CHR 0x20, CHR 0xD0,
      CHR 0xB4, CHR 0xD0, CHR 0xB0, CHR 0xD0, CHR 0xBD, CHR 0xD0, CHR 0xBD, CHR 0xD1,
      CHR 0x8B, CHR 0xD0, CHR 0xB5, CHR 0x20]"

text \<open>The f-string \<open>f"... {self._mongo.collection.full_name}.{item}"\<close>.\<close>

definition no_data_message :: "string \<Rightarrow> string \<Rightarrow> string" where
  "no_data_message full_name item = no_data_text @ full_name @ ''.'' @ item"

text \<open>
  What a manager's \<open>_download\<close> reads besides its arguments.  \<open>full_name\<close> is
  \<open>self._mongo.collection.full_name\<close>.  The statements after the item check ask the
  exchange (\<open>apimoex.get_board_securities\<close>, \<open>pd.read_csv\<close> of the listing page,
  \<open>apimoex.get_board_history\<close> from a start date) and reformat the answer with
  \<open>manager.data_formatter\<close>; neither the client library nor the formatter is part of the
  sources at hand, so the outcome of those statements is a field of the environment: the
  rows, or the message of the exception the library raised.  The history request depends
  on the start date, which is \<open>None\<close> or \<open>last_index.date()\<close>.
\<close>

record ('d, 'r) moex_env =
  full_name :: string
  board_securities :: "string + 'r list"
  listing_csv :: "string + 'r list"
  board_history :: "'d option \<Rightarrow> string + 'r list"

text \<open>An exception of a library propagates through \<open>_download\<close> unchanged.\<close>

definition from_library :: "string + 'a \<Rightarrow> error + 'a" where
  "from_library r = (case r of Inl msg \<Rightarrow> Inl (ExternalError msg) | Inr v \<Rightarrow> Inr v)"

definition Securities_download ::
  "('d, 'r) moex_env \<Rightarrow> string \<Rightarrow> 'd option \<Rightarrow> error + 'r list" where
  "Securities_download env item last_index =
     (if item \<noteq> SECURITIES
      then Inl (POptimizerError (no_data_message (full_name env) item))
      else from_library (board_securities env))"

definition SecuritiesListing_download ::
  "('d, 'r) moex_env \<Rightarrow> string \<Rightarrow> 'd option \<Rightarrow> error + 'r list" where
  "SecuritiesListing_download env item last_index =
     (if item \<noteq> LISTING
      then Inl (POptimizerError (no_data_message (full_name env) item))
      else from_library (listing_csv env))"

definition Index_download ::
  "('d, 'r) moex_env \<Rightarrow> string \<Rightarrow> 'd option \<Rightarrow> error + 'r list" where
  "Index_download env item last_index =
     (if item \<noteq> INDEX
      then Inl (POptimizerError (no_data_message (full_name env) item))
      else from_library (board_history env last_index))"

subsection \<open>Candle rows and \<open>Quotes._clean_up\<close>\<close>

text \<open>
  A candle row is the dictionary returned by the exchange client, with the six keys that
  \<open>Quotes._formatter\<close> reads.  The key \<open>begin\<close> is a date-time string of fixed layout
  (\<open>YYYY-MM-DD HH:MM:SS\<close>), which Python compares lexicographically; the model only needs
  that it is linearly ordered, so its type is a parameter.  The turnover \<open>value\<close> and the
  prices are numbers.
\<close>

record 'b candle =
  c_begin :: 'b
  c_open :: real
  c_close :: real
  c_high :: real
  c_low :: real
  c_value :: real

text \<open>The sort key \<open>lambda x: (x["begin"], -x["value"])\<close>; Python compares tuples
  lexicographically, as the product order of \<open>Product_Lexorder\<close> does.\<close>

definition clean_key :: "('b::linorder) candle \<Rightarrow> 'b \<times> real" where
  "clean_key x = (c_begin x, - c_value x)"

text \<open>One pass of the body of the \<open>for row in data\<close> loop over \<open>data_clean\<close>.\<close>

definition clean_step :: "('b::linorder) candle list \<Rightarrow> 'b candle \<Rightarrow> 'b candle list" where
  "clean_step data_clean row =
     (if data_clean = [] \<or> c_begin (last data_clean) \<noteq> c_begin row
      then data_clean @ [row] else data_clean)"

text \<open>\<open>data.sort(key=...)\<close> is a stable sort, as \<open>sort_key\<close> is; the loop is a left fold.\<close>

definition clean_up :: "('b::linorder) candle list \<Rightarrow> 'b candle list" where
  "clean_up data = foldl clean_step [] (sort_key clean_key data)"

text \<open>The loop invariant of \<open>_clean_up\<close>: \<open>R\<close> is \<open>data_clean\<close> after the rows \<open>xs\<close>
  of the sorted list have been visited.\<close>

definition clean_inv :: "('b::linorder) candle list \<Rightarrow> 'b candle list \<Rightarrow> bool" where
  "clean_inv xs R \<longleftrightarrow>
     sorted_wrt (<) (map c_begin R) \<and>
     c_begin ` set R = c_begin ` set xs \<and>
     (\<forall>r\<in>set R. r \<in> set xs \<and>
        (\<forall>y\<in>set xs. c_begin y = c_begin r \<longrightarrow> c_value y \<le> c_value r)) \<and>
     (xs \<noteq> [] \<longrightarrow> R \<noteq> [] \<and> c_begin (last R) = c_begin (last xs))"

text \<open>A candle with the given \<open>begin\<close> and turnover, for concrete instances.\<close>

definition mk_candle :: "'b \<Rightarrow> real \<Rightarrow> 'b candle" where
  "mk_candle b v = \<lparr>c_begin = b, c_open = 1, c_close = 1, c_high = 1, c_low = 1, c_value = v\<rparr>"

section \<open>Training examples: \<open>poptimizer/ml/examples.py\<close>\<close>

subsection \<open>Values, parameter dictionaries and Python indexing\<close>

text \<open>
  A date is a \<open>pd.Timestamp\<close>, which is a count of nanoseconds: an integer.  A provider's
  parameters are a dictionary from names to immutable values, such as
  \<open>{"days": 20, "div_share": 0.0}\<close>.
\<close>

type_synonym date = int
type_synonym ticker = string

datatype pval = PInt int | PFloat real | PStr string | PTuple "pval list"

type_synonym pdict = "string \<Rightarrow> pval option"
type_synonym params = "(string \<times> pdict) list"

text \<open>\<open>xs[i]\<close>: a negative index counts from the end, an index out of range raises.\<close>

definition py_index :: "'a list \<Rightarrow> int \<Rightarrow> error + 'a" where
  "py_index xs i =
     (if 0 \<le> i \<and> i < int (length xs) then Inr (xs ! nat i)
      else if i < 0 \<and> - i \<le> int (length xs) then Inr (xs ! nat (int (length xs) + i))
      else Inl IndexError)"

text \<open>\<open>.unique()\<close> of \<open>pandas\<close>: the different values, in the order of first appearance.\<close>

fun unique_from :: "'a list \<Rightarrow> 'a list \<Rightarrow> 'a list" where
  "unique_from seen [] = []"
| "unique_from seen (x # xs) =
     (if x \<in> set seen then unique_from seen xs else x # unique_from (x # seen) xs)"

definition unique :: "'a list \<Rightarrow> 'a list" where
  "unique xs = unique_from [] xs"

subsection \<open>Data frames\<close>

text \<open>
  A data frame has a row index of pairs (date, ticker) and a list of columns; columns are
  addressed by position, since two columns may carry the same name.  A column is a name and
  the values at the index entries, where an absent value (\<open>NaN\<close>) is \<open>None\<close>.
\<close>

type_synonym idx = "date \<times> ticker"

record series =
  s_name :: string
  s_values :: "idx \<Rightarrow> real option"

record frame =
  index :: "idx list"
  cols :: "series list"

definition columns :: "frame \<Rightarrow> string list" where
  "columns df = map s_name (cols df)"

text \<open>\<open>df.index.get_level_values(0)\<close>: the date of every row, in row order.\<close>

definition get_level_values_0 :: "frame \<Rightarrow> date list" where
  "get_level_values_0 df = map fst (index df)"

text \<open>
  \<open>pd.concat(data, axis=1)\<close>: the columns of the frames side by side, in the order of the
  list, over the union of their indexes; a frame contributes no value at an index entry it
  does not have.  The union is taken in the order of first appearance; the order in which
  \<open>pandas\<close> puts the rows is not fixed by the source, and results that depend on the rows
  being in date order say so.
\<close>

definition reindex :: "idx list \<Rightarrow> series \<Rightarrow> series" where
  "reindex ix c = c\<lparr>s_values := (\<lambda>i. if i \<in> set ix then s_values c i else None)\<rparr>"

definition pd_concat :: "frame list \<Rightarrow> frame" where
  "pd_concat fs =
     \<lparr>index = unique (concat (map index fs)),
      cols = concat (map (\<lambda>f. map (reindex (index f)) (cols f)) fs)\<rparr>"

text \<open>\<open>df.dropna(axis=0)\<close>: the rows without an absent value.\<close>

definition complete_row :: "frame \<Rightarrow> idx \<Rightarrow> bool" where
  "complete_row df i \<longleftrightarrow> list_all (\<lambda>c. s_values c i \<noteq> None) (cols df)"

definition dropna :: "frame \<Rightarrow> frame" where
  "dropna df = df\<lparr>index := filter (complete_row df) (index df)\<rparr>"

text \<open>\<open>df[mask]\<close> and \<open>df.loc[mask]\<close> for a mask computed from the dates of the rows.\<close>

definition select_dates :: "(date \<Rightarrow> bool) \<Rightarrow> frame \<Rightarrow> frame" where
  "select_dates keep df = df\<lparr>index := filter (\<lambda>i. keep (fst i)) (index df)\<rparr>"

text \<open>\<open>df.iloc[:, n:]\<close> and \<open>df.iloc[:, j]\<close>; a single position out of range raises.\<close>

definition iloc_from :: "nat \<Rightarrow> frame \<Rightarrow> frame" where
  "iloc_from n df = df\<lparr>cols := drop n (cols df)\<rparr>"

definition iloc_col :: "nat \<Rightarrow> frame \<Rightarrow> error + real option list" where
  "iloc_col j df =
     (if j < length (cols df) then Inr (map (s_values (cols df ! j)) (index df))
      else Inl IndexError)"

text \<open>
  A floating-point result that may be infinite or not a number.  \<open>1 / x ** 2\<close> on a column:
  an absent value stays absent (\<open>NaN\<close>), and a zero gives the infinity that floating-point
  division by zero returns; nothing is raised.
\<close>

datatype xreal = Finite real | Infinity | NaN

definition inverse_square :: "real option \<Rightarrow> xreal" where
  "inverse_square c =
     (case c of None \<Rightarrow> NaN | Some x \<Rightarrow> if x = 0 then Infinity else Finite (1 / x\<^sup>2))"

subsection \<open>Feature providers\<close>

text \<open>Modelled from the spec: the module \<open>poptimizer.ml.feature\<close>, whose classes \<open>Examples\<close>
  instantiates by name; it is not among the sources.  A provider has a stable name, the
  list of its output column names, \<open>get(params)\<close> returning a data set keyed by
  (date, security), and \<open>is_categorical(params)\<close> returning one flag per column.  The
  module maps a class name to its constructor, which takes the tickers, the date and the
  parameters; a name it does not have is an \<open>AttributeError\<close>.
\<close>

record feature =
  name :: string
  col_names :: "string list"
  get :: "pdict \<Rightarrow> frame"
  is_categorical :: "pdict \<Rightarrow> bool list"

type_synonym feature_module = "string \<Rightarrow> (ticker list \<Rightarrow> date \<Rightarrow> pdict \<Rightarrow> feature) option"

definition getattr_feature ::
  "feature_module \<Rightarrow> string \<Rightarrow> ticker list \<Rightarrow> date \<Rightarrow> pdict \<Rightarrow> error + feature" where
  "getattr_feature fm cls_name tickers date feat_params =
     (case fm cls_name of
        None \<Rightarrow> Inl (AttributeError cls_name)
      | Some cls \<Rightarrow> Inr (cls tickers date feat_params))"

text \<open>The list comprehension over \<open>params\<close>: the first failure ends it.\<close>

fun make_features ::
  "feature_module \<Rightarrow> ticker list \<Rightarrow> date \<Rightarrow> params \<Rightarrow> error + feature list" where
  "make_features fm tickers date [] = Inr []"
| "make_features fm tickers date ((cls_name, feat_params) # rest) =
     (case getattr_feature fm cls_name tickers date feat_params of
        Inl e \<Rightarrow> Inl e
      | Inr feat \<Rightarrow>
          (case make_features fm tickers date rest of
             Inl e \<Rightarrow> Inl e
           | Inr feats \<Rightarrow> Inr (feat # feats)))"

subsection \<open>The class \<open>Examples\<close>\<close>

record examples =
  ex_tickers :: "ticker list"
  ex_date :: date
  ex_params :: params
  test_labels_params :: pdict
  features :: "feature list"

text \<open>
  \<open>__init__\<close>, on parameter dictionaries as values: the copy of the first entry's
  dictionary with \<open>"days"\<close> set to 1, the provider of the first entry's class built with
  it, and then one provider per entry.  (The dictionaries as objects in a store, where the
  copy matters, are the subject of the next subsection.)
\<close>

definition Examples_init ::
  "feature_module \<Rightarrow> ticker list \<Rightarrow> date \<Rightarrow> params \<Rightarrow> error + examples" where
  "Examples_init fm tickers date params =
     (case params of
        [] \<Rightarrow> Inl IndexError
      | (cls0, params0) # _ \<Rightarrow>
          (let tlp = params0(''days'' \<mapsto> PInt 1) in
           case getattr_feature fm cls0 tickers date tlp of
             Inl e \<Rightarrow> Inl e
           | Inr test_label \<Rightarrow>
               (case make_features fm tickers date params of
                  Inl e \<Rightarrow> Inl e
                | Inr feats \<Rightarrow>
                    Inr \<lparr>ex_tickers = tickers, ex_date = date, ex_params = params,
                         test_labels_params = tlp, features = test_label # feats\<rparr>)))"

definition get_features_names :: "examples \<Rightarrow> string list" where
  "get_features_names ex = concat (map col_names (drop 2 (features ex)))"

text \<open>\<open>params or self._params\<close>: \<open>None\<close> and the empty tuple both give the stored ones.\<close>

definition params_or :: "params option \<Rightarrow> params \<Rightarrow> params" where
  "params_or p own = (case p of None \<Rightarrow> own | Some q \<Rightarrow> if q = [] then own else q)"

definition categorical_features :: "examples \<Rightarrow> params option \<Rightarrow> nat list" where
  "categorical_features ex p =
     (let params = params_or p (ex_params ex);
          cat_flag = concat (map (\<lambda>(feat, (_, feat_param)). is_categorical feat feat_param)
                              (zip (drop 2 (features ex)) (drop 1 params)))
      in map fst (filter snd (enumerate 0 cat_flag)))"

definition get_all :: "examples \<Rightarrow> params \<Rightarrow> error + frame" where
  "get_all ex params =
     (case features ex of
        [] \<Rightarrow> Inl IndexError
      | test_label # feats \<Rightarrow>
          Inr (pd_concat
                 (get test_label (test_labels_params ex) #
                  map (\<lambda>(feat, (_, feat_params)). get feat feat_params) (zip feats params))))"

subsection \<open>Pools\<close>

text \<open>
  The keyword arguments for \<open>catboost.Pool\<close>: the keys \<open>data\<close>, \<open>label\<close>, \<open>weight\<close>,
  \<open>cat_features\<close> and \<open>feature_names\<close> of the dictionary.  The weights are \<open>1 / scaler ** 2\<close> with the
  scaler in column 2; the label is column 1, or \<open>None\<close> for the prediction pool; the data
  are the columns from position 2 on.  \<open>part\<close> is the block of rows, \<open>df\<close> the frame whose
  column names are listed.  The arguments are evaluated in the order written, so a missing
  label column is noticed before a missing scaler column.
\<close>

record pool =
  pool_data :: frame
  pool_label :: "real option list option"
  pool_weight :: "xreal list"
  pool_cat_features :: "nat list"
  pool_feature_names :: "string list"

definition pool_params ::
  "examples \<Rightarrow> params option \<Rightarrow> frame \<Rightarrow> frame \<Rightarrow> bool \<Rightarrow> error + pool" where
  "pool_params ex p df part with_label =
     (case (if with_label then iloc_col 1 part else Inr []) of
        Inl e \<Rightarrow> Inl e
      | Inr lab \<Rightarrow>
          (case iloc_col 2 part of
             Inl e \<Rightarrow> Inl e
           | Inr scaler \<Rightarrow>
               Inr \<lparr>pool_data = iloc_from 2 part,
                    pool_label = (if with_label then Some lab else None),
                    pool_weight = map inverse_square scaler,
                    pool_cat_features = categorical_features ex p,
                    pool_feature_names = drop 2 (columns df)\<rparr>))"

subsection \<open>\<open>train_val_pool_params\<close> and \<open>train_predict_pool_params\<close>\<close>

definition TRAIN_VAL_SPLIT :: real where
  "TRAIN_VAL_SPLIT = 0.9"

text \<open>
  \<open>dates[int(len(dates) * TRAIN_VAL_SPLIT)]\<close>.  The product is a floating-point number and
  \<open>int\<close> truncates it; for every length a frame can have this is the integer part of nine
  tenths of the length, since the product is either an integer that floating point
  represents exactly or at least a tenth away from one.
\<close>

definition val_start_of :: "date list \<Rightarrow> error + date" where
  "val_start_of dates = py_index dates \<lfloor>real (length dates) * TRAIN_VAL_SPLIT\<rfloor>"

text \<open>\<open>params[0][1]["days"]\<close>, used as an index: it has to be an integer.\<close>

definition label_days_of :: "params \<Rightarrow> error + int" where
  "label_days_of params =
     (case params of
        [] \<Rightarrow> Inl IndexError
      | (_, params0) # _ \<Rightarrow>
          (case params0 ''days'' of
             None \<Rightarrow> Inl (KeyError ''days'')
           | Some (PInt n) \<Rightarrow> Inr n
           | Some (PFloat x) \<Rightarrow> Inl IndexError
           | Some _ \<Rightarrow> Inl TypeError))"

text \<open>\<open>dates[dates < val_start].unique()[-label_days]\<close>.\<close>

definition train_end_of :: "date list \<Rightarrow> date \<Rightarrow> int \<Rightarrow> error + date" where
  "train_end_of dates val_start label_days =
     py_index (unique (filter (\<lambda>d. d < val_start) dates)) (- label_days)"

definition train_val_pool_params :: "examples \<Rightarrow> params option \<Rightarrow> error + pool \<times> pool" where
  "train_val_pool_params ex p =
     (let params = params_or p (ex_params ex) in
      case get_all ex params of
        Inl e \<Rightarrow> Inl e
      | Inr joined \<Rightarrow>
          (let df = dropna joined; dates = get_level_values_0 df in
           case val_start_of dates of
             Inl e \<Rightarrow> Inl e
           | Inr val_start \<Rightarrow>
               (let df_val = select_dates (\<lambda>d. d \<ge> val_start) df in
                case label_days_of params of
                  Inl e \<Rightarrow> Inl e
                | Inr label_days \<Rightarrow>
                    (case train_end_of dates val_start label_days of
                       Inl e \<Rightarrow> Inl e
                     | Inr train_end \<Rightarrow>
                         (let df_train = select_dates (\<lambda>d. d \<le> train_end) df in
                          case pool_params ex (Some params) df df_train True of
                            Inl e \<Rightarrow> Inl e
                          | Inr train_params \<Rightarrow>
                              (case pool_params ex (Some params) df df_val True of
                                 Inl e \<Rightarrow> Inl e
                               | Inr val_params \<Rightarrow> Inr (train_params, val_params)))))))"

definition train_predict_pool_params :: "examples \<Rightarrow> error + pool \<times> pool" where
  "train_predict_pool_params ex =
     (case get_all ex (ex_params ex) of
        Inl e \<Rightarrow> Inl e
      | Inr joined \<Rightarrow>
          (let df_predict = select_dates (\<lambda>d. d = ex_date ex) joined in
           case pool_params ex None joined df_predict False of
             Inl e \<Rightarrow> Inl e
           | Inr predict_params \<Rightarrow>
               (let df = dropna joined in
                case pool_params ex None df df True of
                  Inl e \<Rightarrow> Inl e
                | Inr train_params \<Rightarrow> Inr (train_params, predict_params))))"

subsection \<open>The parameter dictionaries as objects\<close>

text \<open>
  \<open>__init__\<close> copies a dictionary and then assigns into the copy, which is only the same
  as working on values if the copy shares nothing with the original.  Here the dictionaries
  live in a store, a parameter entry holds the address of its dictionary, and
  \<open>copy.deepcopy\<close> allocates a new dictionary with the same items (the items are immutable
  values, so there is nothing below them to copy).
\<close>

type_synonym addr = nat
type_synonym store = "pdict list"
type_synonym params_ref = "(string \<times> addr) list"

text \<open>Modelled from the spec: the constructors of the classes of \<open>poptimizer.ml.feature\<close>,
  which are not among the sources.  A provider is constructed from the tickers, the date
  and its parameters; the object keeps these arguments, the parameters as the address of
  the dictionary it was given, and changes nothing.  \<open>known\<close> tells which class names the
  module has.\<close>

record provider_obj =
  po_cls :: string
  po_tickers :: "ticker list"
  po_date :: date
  po_params :: addr

record examples_obj =
  eo_tickers :: "ticker list"
  eo_date :: date
  eo_params :: params_ref
  eo_test_labels_params :: addr
  eo_features :: "provider_obj list"

definition deepcopy :: "store \<Rightarrow> addr \<Rightarrow> addr \<times> store" where
  "deepcopy st a = (length st, st @ [st ! a])"

definition setitem :: "store \<Rightarrow> addr \<Rightarrow> string \<Rightarrow> pval \<Rightarrow> store" where
  "setitem st a k v = st[a := (st ! a)(k \<mapsto> v)]"

definition construct ::
  "(string \<Rightarrow> bool) \<Rightarrow> string \<Rightarrow> ticker list \<Rightarrow> date \<Rightarrow> addr \<Rightarrow> error + provider_obj" where
  "construct known cls_name tickers date a =
     (if known cls_name
      then Inr \<lparr>po_cls = cls_name, po_tickers = tickers, po_date = date, po_params = a\<rparr>
      else Inl (AttributeError cls_name))"

fun construct_all ::
  "(string \<Rightarrow> bool) \<Rightarrow> ticker list \<Rightarrow> date \<Rightarrow> params_ref \<Rightarrow> error + provider_obj list" where
  "construct_all known tickers date [] = Inr []"
| "construct_all known tickers date ((cls_name, a) # rest) =
     (case construct known cls_name tickers date a of
        Inl e \<Rightarrow> Inl e
      | Inr feat \<Rightarrow>
          (case construct_all known tickers date rest of
             Inl e \<Rightarrow> Inl e
           | Inr feats \<Rightarrow> Inr (feat # feats)))"

definition Examples_init_store ::
  "(string \<Rightarrow> bool) \<Rightarrow> store \<Rightarrow> ticker list \<Rightarrow> date \<Rightarrow> params_ref
     \<Rightarrow> error + examples_obj \<times> store" where
  "Examples_init_store known st tickers date params =
     (case params of
        [] \<Rightarrow> Inl IndexError
      | (cls0, a0) # _ \<Rightarrow>
          (let (t, st1) = deepcopy st a0;
               st2 = setitem st1 t ''days'' (PInt 1) in
           case construct known cls0 tickers date t of
             Inl e \<Rightarrow> Inl e
           | Inr test_label \<Rightarrow>
               (case construct_all known tickers date params of
                  Inl e \<Rightarrow> Inl e
                | Inr feats \<Rightarrow>
                    Inr (\<lparr>eo_tickers = tickers, eo_date = date, eo_params = params,
                          eo_test_labels_params = t, eo_features = test_label # feats\<rparr>,
                         st2))))"

subsection \<open>A module of one-column providers, for concrete instances\<close>

text \<open>
  Every class of this module gives one column, named after the class, over the index \<open>ix\<close>;
  the value at an index entry may depend on the parameters passed to \<open>get\<close>.  Only the class
  \<open>Ticker\<close> is categorical.
\<close>

definition table_module ::
  "string list \<Rightarrow> idx list \<Rightarrow> (string \<Rightarrow> pdict \<Rightarrow> idx \<Rightarrow> real option) \<Rightarrow> feature_module" where
  "table_module classes ix vals cls_name =
     (if cls_name \<in> set classes
      then Some (\<lambda>tickers date feat_params.
             \<lparr>name = cls_name, col_names = [cls_name],
              get = (\<lambda>q. \<lparr>index = ix, cols = [\<lparr>s_name = cls_name, s_values = vals cls_name q\<rparr>]\<rparr>),
              is_categorical = (\<lambda>q. [cls_name = ''Ticker''])\<rparr>)
      else None)"

text \<open>The horizon in a parameter dictionary, as a number; absent when there is none.\<close>

definition days_value :: "pdict \<Rightarrow> real option" where
  "days_value q = (case q ''days'' of Some (PInt n) \<Rightarrow> Some (real_of_int n) | _ \<Rightarrow> None)"

text \<open>An example set over two dates of one security, built as the tests build theirs:
  the label first, the scaler second, one predictive provider after them.\<close>

definition demo_module :: feature_module where
  "demo_module =
     table_module [''Label'', ''Scaler'', ''Mom12m''] [(1, ''A''), (2, ''A'')]
       (\<lambda>cls q i. days_value q)"

definition demo_params :: params where
  "demo_params =
     [(''Label'', [''days'' \<mapsto> PInt 20]),
      (''Scaler'', [''days'' \<mapsto> PInt 150]),
      (''Mom12m'', [''days'' \<mapsto> PInt 252])]"

text \<open>Running a function on the example set that \<open>__init__\<close> returns, if it returns one.\<close>

definition on_examples ::
  "feature_module \<Rightarrow> ticker list \<Rightarrow> date \<Rightarrow> params \<Rightarrow> (examples \<Rightarrow> error + 'a) \<Rightarrow> error + 'a" where
  "on_examples fm tickers date params f =
     (case Examples_init fm tickers date params of Inl e \<Rightarrow> Inl e | Inr ex \<Rightarrow> f ex)"

subsection \<open>The wording of the specification for the split\<close>

text \<open>
  Following the specification's words, not the source: the split point ``at the 90th
  percentile of the distinct dates'' is the distinct date at nine tenths of the way through
  the list of distinct dates.
\<close>

definition split_of_distinct_dates :: "date list \<Rightarrow> error + date" where
  "split_of_distinct_dates dates =
     py_index (unique dates) \<lfloor>real (length (unique dates)) * TRAIN_VAL_SPLIT\<rfloor>"

text \<open>
  The distinct dates of the data strictly after \<open>x\<close> and strictly before \<open>v\<close>.  A date \<open>x\<close> is
  strictly earlier than the \<open>k\<close>-th distinct date before \<open>v\<close> exactly when there are at least
  \<open>k\<close> of them.
\<close>

definition dates_between :: "date list \<Rightarrow> date \<Rightarrow> date \<Rightarrow> date list" where
  "dates_between dates x v = filter (\<lambda>d. x < d \<and> d < v) (unique dates)"

subsection \<open>Concrete data for the pools\<close>

text \<open>Label and scaler with horizon \<open>days\<close>, as the first two entries of a parameter list.\<close>

definition label_scaler_params :: "int \<Rightarrow> params" where
  "label_scaler_params days =
     [(''Label'', [''days'' \<mapsto> PInt days]), (''Scaler'', [''days'' \<mapsto> PInt days])]"

text \<open>One security on five consecutive dates, every value present.\<close>

definition five_days_module :: feature_module where
  "five_days_module =
     table_module [''Label'', ''Scaler'']
       [(1, ''A''), (2, ''A''), (3, ''A''), (4, ''A''), (5, ''A'')]
       (\<lambda>cls q i. Some 1)"

text \<open>Three dates; one security on the first and on the last, ten on the second.\<close>

definition unbalanced_index :: "idx list" where
  "unbalanced_index =
     [(1, ''A''), (2, ''A''), (2, ''B''), (2, ''C''), (2, ''D''), (2, ''E''), (2, ''F''),
      (2, ''G''), (2, ''H''), (2, ''I''), (2, ''J''), (3, ''A'')]"

definition unbalanced_module :: feature_module where
  "unbalanced_module = table_module [''Label'', ''Scaler''] unbalanced_index (\<lambda>cls q i. Some 1)"

text \<open>Two dates of one security; the scaler is zero on the first date.\<close>

definition zero_scaler_module :: feature_module where
  "zero_scaler_module =
     table_module [''Label'', ''Scaler''] [(1, ''A''), (2, ''A'')]
       (\<lambda>cls q i. if cls = ''Scaler'' \<and> fst i = 1 then Some 0 else Some 1)"

text \<open>Two dates of one security; the scaler is absent on the second date.\<close>

definition missing_scaler_module :: feature_module where
  "missing_scaler_module =
     table_module [''Label'', ''Scaler''] [(1, ''A''), (2, ''A'')]
       (\<lambda>cls q i. if cls = ''Scaler'' \<and> fst i = 2 then None else Some 1)"

section \<open>The forecast: \<open>poptimizer/ml/forecaster.py\<close>\<close>

text \<open>
  The module \<open>forecaster\<close> and the class \<open>Forecast\<close> are not among the sources; only the
  tests that call them are.  The definitions of this section follow the specification.
\<close>

subsection \<open>The forecast value and the cache guard\<close>

text \<open>Modelled from the spec: the class \<open>Forecast\<close> of \<open>poptimizer.portfolio.metrics\<close>, an
  immutable value with the as-of date, the ordered tuple of securities, the mean vector,
  the covariance matrix, the error metrics, the feature importances, the average
  correlation, the shrinkage intensity and the exact parameter set used.  The parameter
  set is a nested structure of dictionaries and tuples; its type is a parameter, and
  equality of HOL values stands for deep equality.
\<close>

record 'p forecast =
  fc_date :: date
  fc_tickers :: "ticker list"
  fc_mean :: "real list"
  fc_cov :: "real list list"
  fc_feature_importance :: "real list"
  fc_r :: real
  fc_r_rang :: real
  fc_t :: real
  fc_average_cor :: real
  fc_shrinkage :: real
  fc_params :: 'p

text \<open>Modelled from the spec: \<open>forecaster.validate_cache\<close>, which returns true iff the cached
  forecast's security tuple equals the requested one (order-sensitive), its date equals
  the requested date, and its stored parameter set deep-equals the requested parameters.
\<close>

definition validate_cache :: "'p forecast \<Rightarrow> ticker list \<Rightarrow> date \<Rightarrow> 'p \<Rightarrow> bool" where
  "validate_cache cached requested_securities requested_date requested_params \<longleftrightarrow>
     fc_tickers cached = requested_securities \<and>
     fc_date cached = requested_date \<and>
     fc_params cached = requested_params"

subsection \<open>The consistency check of the covariance\<close>

text \<open>
  The text that the tests look for in the error: the Russian for ``the computed covariance
  does not match the one used for normalisation'', as its UTF-8 bytes.
\<close>

definition cov_mismatch_text :: string where
  "cov_mismatch_text =
     [CHR 0xD0, CHR 0xA0, CHR 0xD0, CHR 0xB0, CHR 0xD1, CHR 0x81, CHR 0xD1, CHR 0x87,
      CHR 0xD0, CHR 0xB5, CHR 0xD1, CHR 0x82, CHR 0xD0, CHR 0xBD, CHR 0xD0, CHR 0xB0,
      CHR 0xD1, CHR 0x8F, CHR 0x20, CHR 0xD0, CHR 0xBA, CHR 0xD0, CHR 0xBE, CHR 0xD0,
      CHR 0xB2, CHR 0xD0, CHR 0xB0, CHR 0xD1, CHR 0x80, CHR 0xD0, CHR 0xB8, CHR 0xD0,
      CHR 0xB0, CHR 0xD1, CHR 0x86, CHR 0xD0, CHR 0xB8, CHR 0xD1, CHR 0x8F, CHR 0x20,
      CHR 0xD0, CHR 0xBD, CHR 0xD0, CHR 0xB5, CHR 0x20, CHR 0xD1, CHR 0x81, CHR 0xD0,
      CHR 0xBE, CHR 0xD0, CHR 0xB2, CHR 0xD0, CHR 0xBF, CHR 0xD0, CHR 0xB0, CHR 0xD0,
      CHR 0xB4, CHR 0xD0, CHR 0xB0, CHR 0xD0, CHR 0xB5, CHR 0xD1, CHR 0x82, CHR 0x20,
      CHR 0xD1, CHR 0x81, CHR 0x20, CHR 0xD0, CHR 0xB8, CHR 0xD1, CHR 0x81, CHR 0xD0,
      CHR 0xBF, CHR 0xD0, CHR 0xBE, CHR 0xD0, CHR 0xBB, CHR 0xD1, CHR 0x8C, CHR 0xD0,
      CHR 0xB7, CHR 0xD0, CHR 0xBE, CHR 0xD0, CHR 0xB2, CHR 0xD0, CHR 0xB0, CHR 0xD0,
      CHR 0xB2, CHR 0xD1, CHR 0x88, CHR 0xD0, CHR 0xB5, CHR 0xD0, CHR 0xB9, CHR 0xD1,
      CHR 0x81, CHR 0xD1, CHR 0x8F, CHR 0x20, CHR 0xD0, CHR 0xB4, CHR 0xD0, CHR 0xBB,
      CHR 0xD1, CHR 0x8F, CHR 0x20, CHR 0xD0, CHR 0xBD, CHR 0xD0, CHR 0xBE, CHR 0xD1,
      CHR 0x80, CHR 0xD0, CHR 0xBC, CHR 0xD0, CHR 0xB8, CHR 0xD1, CHR 0x80, CHR 0xD0,
      CHR 0xBE, CHR 0xD0, CHR 0xB2, CHR 0xD0, CHR 0xB0, CHR 0xD0, CHR 0xBD, CHR 0xD0,
      CHR 0xB8, CHR 0xD1, CHR 0x8F]"

text \<open>\<open>diag(cov)\<close>: the entries with equal row and column position.\<close>

definition cov_diag :: "real list list \<Rightarrow> real list" where
  "cov_diag cov = map (\<lambda>i. cov ! i ! i) [0..<length cov]"

text \<open>
  A diagonal entry against a value of the normalisation column: equal to its square within
  the relative tolerance \<open>rtol\<close>.  An absent value matches nothing.
\<close>

definition matches_basis :: "real \<Rightarrow> real \<Rightarrow> real option \<Rightarrow> bool" where
  "matches_basis rtol c b =
     (case b of None \<Rightarrow> False | Some x \<Rightarrow> \<bar>c - x\<^sup>2\<bar> \<le> rtol * \<bar>x\<^sup>2\<bar>)"

text \<open>Modelled from the spec: \<open>forecaster.validate_cov\<close>, which asserts that \<open>diag(cov)\<close> equals
  \<open>pool.data[:, 0]\<close> squared within a tight relative tolerance and fails with an error
  stating the mismatch otherwise.  The specification does not fix the tolerance beyond
  ``roughly 1e-2 relative or less'', so it is the parameter \<open>rtol\<close>.  The numbers are reals.
\<close>

definition validate_cov :: "real \<Rightarrow> real list list \<Rightarrow> pool \<Rightarrow> error + unit" where
  "validate_cov rtol cov predict_pool_params =
     (case iloc_col 0 (pool_data predict_pool_params) of
        Inl e \<Rightarrow> Inl e
      | Inr basis \<Rightarrow>
          if list_all2 (matches_basis rtol) (cov_diag cov) basis then Inr ()
          else Inl (POptimizerError cov_mismatch_text))"

text \<open>Modelled from the spec: the end of \<open>forecaster.ledoit_wolf_cov\<close>, which calls
  \<open>validate_cov\<close> on the rescaled shrinkage estimate before returning it with the average
  correlation and the shrinkage intensity; the estimator itself is numerical code outside
  the sources, and its result is the argument \<open>estimate\<close>.
\<close>

definition ledoit_wolf_cov ::
  "real \<Rightarrow> real list list \<times> real \<times> real \<Rightarrow> pool \<Rightarrow> error + real list list \<times> real \<times> real" where
  "ledoit_wolf_cov rtol estimate predict_pool_params =
     (case validate_cov rtol (fst estimate) predict_pool_params of
        Inl e \<Rightarrow> Inl e
      | Inr _ \<Rightarrow> Inr estimate)"

text \<open>Modelled from the spec: the assembly at the end of \<open>forecaster.get_forecast\<close>, after the
  tuning collaborator has returned its diagnostics and \<open>predict_mean\<close> the mean vector: the
  validated covariance is computed, and the forecast is packaged from the parts.
\<close>

record diagnostics =
  dg_feature_importance :: "real list"
  dg_r :: real
  dg_r_rang :: real
  dg_t :: real

definition get_forecast ::
  "real \<Rightarrow> ticker list \<Rightarrow> date \<Rightarrow> 'p \<Rightarrow> pool \<Rightarrow> diagnostics \<Rightarrow> real list
     \<Rightarrow> real list list \<times> real \<times> real \<Rightarrow> error + 'p forecast" where
  "get_forecast rtol tickers date params predict_pool_params valid_result mean estimate =
     (case ledoit_wolf_cov rtol estimate predict_pool_params of
        Inl e \<Rightarrow> Inl e
      | Inr (cov, average_cor, shrinkage) \<Rightarrow>
          Inr \<lparr>fc_date = date, fc_tickers = tickers, fc_mean = mean, fc_cov = cov,
               fc_feature_importance = dg_feature_importance valid_result,
               fc_r = dg_r valid_result, fc_r_rang = dg_r_rang valid_result,
               fc_t = dg_t valid_result, fc_average_cor = average_cor,
               fc_shrinkage = shrinkage, fc_params = params\<rparr>)"

subsection \<open>The values of the tests\<close>

text \<open>The frame \<open>pd.DataFrame([[1, 0], [2, 0], [3, 0]])\<close> as the data of a prediction pool,
  with the row numbers as dates of the index.\<close>

definition test_pool :: pool where
  "test_pool =
     \<lparr>pool_data =
        \<lparr>index = [(0, ''''), (1, ''''), (2, '''')],
         cols = [\<lparr>s_name = ''0'', s_values = (\<lambda>i. Some (real_of_int (fst i) + 1))\<rparr>,
                 \<lparr>s_name = ''1'', s_values = (\<lambda>i. Some 0)\<rparr>]\<rparr>,
      pool_label = None, pool_weight = [], pool_cat_features = [], pool_feature_names = []\<rparr>"

definition test_cov :: "real list list" where
  "test_cov = [[1, 0, 0], [0, 4, 0], [0, 0, 9.1]]"

text \<open>The forecast of the tests (2019-03-16 is day 17971), with the model's part of its
  parameters; \<open>learning_rate\<close> is the hyperparameter that the tests change.\<close>

definition test_model_params :: "real \<Rightarrow> pdict" where
  "test_model_params learning_rate =
     [''bagging_temperature'' \<mapsto> PInt 1, ''depth'' \<mapsto> PInt 6,
      ''ignored_features'' \<mapsto> PTuple [], ''l2_leaf_reg'' \<mapsto> PInt 3,
      ''learning_rate'' \<mapsto> PFloat learning_rate, ''one_hot_max_size'' \<mapsto> PInt 2,
      ''random_strength'' \<mapsto> PInt 1]"

definition test_forecast :: "(params \<times> pdict) forecast" where
  "test_forecast =
     \<lparr>fc_date = 17971, fc_tickers = [''RTKM'', ''UPRO'', ''DSKY''], fc_mean = [0],
      fc_cov = [[0]], fc_feature_importance = [], fc_r = 0, fc_r_rang = 0, fc_t = 0,
      fc_average_cor = 0, fc_shrinkage = 0,
      fc_params = (demo_params, test_model_params 0.1)\<rparr>"


section \<open>Properties of the market data store\<close>

subsection \<open>\<open>Quotes._clean_up\<close>\<close>

lemma clean_key_le_begin: "clean_key y \<le> clean_key x \<Longrightarrow> c_begin y \<le> c_begin x"
  by (auto simp: clean_key_def less_eq_prod_def)

lemma clean_key_le_value:
  "clean_key y \<le> clean_key x \<Longrightarrow> c_begin y = c_begin x \<Longrightarrow> c_value x \<le> c_value y"
  by (auto simp: clean_key_def less_eq_prod_def)

lemma in_butlast_or_last: "y \<in> set xs \<Longrightarrow> y \<in> set (butlast xs) \<or> y = last xs"
  by (induction xs) (auto split: if_splits)

lemma sorted_key_last_begin:
  assumes "sorted (map clean_key xs)" and "y \<in> set xs"
  shows "c_begin y \<le> c_begin (last xs)"
proof -
  from assms(2) have ne: "xs \<noteq> []" by auto
  from assms(1) have "sorted (map c_begin xs)"
    by (induction xs) (auto intro: clean_key_le_begin)
  then have "sorted (map c_begin (butlast xs @ [last xs]))"
    using ne by simp
  then have "\<forall>z\<in>set (butlast xs). c_begin z \<le> c_begin (last xs)"
    by (simp add: sorted_append)
  moreover have "y \<in> set (butlast xs) \<or> y = last xs"
    using assms(2) by (rule in_butlast_or_last)
  ultimately show ?thesis by auto
qed

lemma clean_inv_foldl:
  "sorted (map clean_key xs) \<Longrightarrow> clean_inv xs (foldl clean_step [] xs)"
proof (induction xs rule: rev_induct)
  case Nil
  show ?case by (simp add: clean_inv_def)
next
  case (snoc x xs)
  let ?R = "foldl clean_step [] xs"
  from snoc.prems have srt: "sorted (map clean_key xs)"
    and le: "\<forall>y\<in>set xs. clean_key y \<le> clean_key x"
    by (auto simp: sorted_append)
  from snoc.IH [OF srt] have inv: "clean_inv xs ?R" .
  have leb: "\<forall>y\<in>set xs. c_begin y \<le> c_begin x"
    using le clean_key_le_begin by blast
  show ?case
  proof (cases "xs = []")
    case True
    then show ?thesis by (simp add: clean_inv_def clean_step_def)
  next
    case False
    with inv have Rne: "?R \<noteq> []" and lastR: "c_begin (last ?R) = c_begin (last xs)"
      by (auto simp: clean_inv_def)
    have lastxs: "\<forall>y\<in>set xs. c_begin y \<le> c_begin (last xs)"
      using srt sorted_key_last_begin by blast
    show ?thesis
    proof (cases "c_begin (last ?R) = c_begin x")
      case True
      then have st: "foldl clean_step [] (xs @ [x]) = ?R"
        using Rne by (simp add: clean_step_def)
      have "last ?R \<in> set ?R" using Rne by simp
      then have "c_begin x \<in> c_begin ` set ?R"
        using True by (metis image_eqI)
      moreover have "\<forall>r\<in>set ?R. c_begin x = c_begin r \<longrightarrow> c_value x \<le> c_value r"
        using inv le clean_key_le_value unfolding clean_inv_def by metis
      ultimately show ?thesis
        using inv Rne True unfolding st clean_inv_def by auto
    next
      case neq: False
      then have st: "foldl clean_step [] (xs @ [x]) = ?R @ [x]"
        by (simp add: clean_step_def)
      have lt: "\<forall>y\<in>set xs. c_begin y < c_begin x"
      proof
        fix y assume y: "y \<in> set xs"
        have "c_begin (last xs) \<le> c_begin x" using leb False by simp
        moreover have "c_begin (last xs) \<noteq> c_begin x" using neq lastR by simp
        ultimately show "c_begin y < c_begin x" using lastxs y by fastforce
      qed
      have ltR: "\<forall>r\<in>set ?R. c_begin r < c_begin x"
        using inv lt unfolding clean_inv_def by blast
      show ?thesis
        using inv lt ltR unfolding st clean_inv_def
        by (auto simp: sorted_wrt_append)
    qed
  qed
qed

lemma clean_inv_clean_up: "clean_inv (sort_key clean_key data) (clean_up data)"
  unfolding clean_up_def by (rule clean_inv_foldl) simp

text \<open>
  Claim C10.  For every list of candle rows, the rows returned by \<open>Quotes._clean_up\<close> have
  \<open>begin\<close> values that are in non-decreasing order and pairwise different; the \<open>begin\<close>
  values that occur in the result are exactly those that occur in the input, so there is
  exactly one retained row for each of them; and every retained row is a row of the input
  whose turnover \<open>value\<close> is the largest among the input rows with the same \<open>begin\<close>.
\<close>

theorem clean_up_one_row_per_begin_with_max_value:
  "sorted (map c_begin (clean_up data)) \<and>
   distinct (map c_begin (clean_up data)) \<and>
   c_begin ` set (clean_up data) = c_begin ` set data \<and>
   (\<forall>r\<in>set (clean_up data). r \<in> set data \<and>
      (\<forall>y\<in>set data. c_begin y = c_begin r \<longrightarrow> c_value y \<le> c_value r))"
proof -
  have inv: "clean_inv (sort_key clean_key data) (clean_up data)"
    by (rule clean_inv_clean_up)
  have "sorted_wrt (<) (map c_begin (clean_up data))"
    using inv by (simp add: clean_inv_def)
  then have "sorted (map c_begin (clean_up data))" "distinct (map c_begin (clean_up data))"
    by (simp_all add: strict_sorted_iff)
  moreover have "c_begin ` set (clean_up data) = c_begin ` set data"
    using inv by (simp add: clean_inv_def)
  moreover have "\<forall>r\<in>set (clean_up data). r \<in> set data \<and>
      (\<forall>y\<in>set data. c_begin y = c_begin r \<longrightarrow> c_value y \<le> c_value r)"
    using inv by (simp add: clean_inv_def)
  ultimately show ?thesis by blast
qed

theorem clean_up_one_row_per_begin_with_max_value_witness:
  "clean_up [mk_candle 2 5, mk_candle (1::nat) 3, mk_candle 2 7, mk_candle 1 1]
     = [mk_candle 1 3, mk_candle 2 7] \<and>
   mk_candle (2::nat) 7 \<in> set [mk_candle 2 5, mk_candle (1::nat) 3, mk_candle 2 7, mk_candle 1 1] \<and>
   c_value (mk_candle (2::nat) 5) \<le> c_value (mk_candle (2::nat) 7)"
proof -
  let ?D = "[mk_candle 2 5, mk_candle (1::nat) 3, mk_candle 2 7, mk_candle 1 1]"
  have e: "clean_up ?D = [mk_candle 1 3, mk_candle 2 7]"
    by (simp add: clean_up_def clean_step_def clean_key_def mk_candle_def less_eq_prod_def)
  have "\<forall>r\<in>set (clean_up ?D). r \<in> set ?D \<and>
      (\<forall>y\<in>set ?D. c_begin y = c_begin r \<longrightarrow> c_value y \<le> c_value r)"
    using clean_up_one_row_per_begin_with_max_value [of ?D] by blast
  then have "mk_candle 2 7 \<in> set ?D \<and>
      (\<forall>y\<in>set ?D. c_begin y = c_begin (mk_candle (2::nat) 7) \<longrightarrow> c_value y \<le> c_value (mk_candle (2::nat) 7))"
    unfolding e by simp
  then have "mk_candle 2 7 \<in> set ?D \<and> c_value (mk_candle (2::nat) 5) \<le> c_value (mk_candle (2::nat) 7)"
    by (simp add: mk_candle_def)
  with e show ?thesis by blast
qed

subsection \<open>The item check of \<open>_download\<close>\<close>

lemma from_library_not_POptimizerError: "from_library r \<noteq> Inl (POptimizerError m)"
  by (simp add: from_library_def split: sum.splits)

text \<open>
  Claim C9.  For each of the managers \<open>Securities\<close>, \<open>SecuritiesListing\<close> and \<open>Index\<close>: when
  the requested item is not the manager's one key, \<open>_download\<close> returns at once with a
  \<open>POptimizerError\<close> whose message is the fixed text followed by the collection's full name,
  a dot and the offending item; this outcome does not depend on what the exchange would
  answer, so nothing is requested and nothing is tried again.  When the item is the
  manager's key, the result is that of the request, and it is not a \<open>POptimizerError\<close>.
\<close>

theorem download_unknown_item_raises:
  "(item \<noteq> SECURITIES \<longrightarrow>
      Securities_download env item last_index
        = Inl (POptimizerError (no_data_text @ full_name env @ ''.'' @ item))) \<and>
   (item \<noteq> LISTING \<longrightarrow>
      SecuritiesListing_download env item last_index
        = Inl (POptimizerError (no_data_text @ full_name env @ ''.'' @ item))) \<and>
   (item \<noteq> INDEX \<longrightarrow>
      Index_download env item last_index
        = Inl (POptimizerError (no_data_text @ full_name env @ ''.'' @ item))) \<and>
   Securities_download env SECURITIES last_index = from_library (board_securities env) \<and>
   SecuritiesListing_download env LISTING last_index = from_library (listing_csv env) \<and>
   Index_download env INDEX last_index = from_library (board_history env last_index) \<and>
   (\<forall>m. Securities_download env SECURITIES last_index \<noteq> Inl (POptimizerError m)) \<and>
   (\<forall>m. SecuritiesListing_download env LISTING last_index \<noteq> Inl (POptimizerError m)) \<and>
   (\<forall>m. Index_download env INDEX last_index \<noteq> Inl (POptimizerError m))"
  by (simp add: Securities_download_def SecuritiesListing_download_def Index_download_def
      no_data_message_def from_library_not_POptimizerError)

theorem download_unknown_item_raises_witness:
  "Securities_download
      \<lparr>full_name = ''data.misc'', board_securities = Inr [1::nat],
       listing_csv = Inr [2], board_history = (\<lambda>d::nat option. Inr [3])\<rparr> ''MCFTRR'' None
     = Inl (POptimizerError (no_data_text @ ''data.misc.MCFTRR'')) \<and>
   SecuritiesListing_download
      \<lparr>full_name = ''data.misc'', board_securities = Inr [1::nat],
       listing_csv = Inr [2], board_history = (\<lambda>d::nat option. Inr [3])\<rparr> ''MCFTRR'' None
     = Inl (POptimizerError (no_data_text @ ''data.misc.MCFTRR'')) \<and>
   Index_download
      \<lparr>full_name = ''data.misc'', board_securities = Inr [1::nat],
       listing_csv = Inr [2], board_history = (\<lambda>d::nat option. Inr [3])\<rparr> ''listing'' None
     = Inl (POptimizerError (no_data_text @ ''data.misc.listing'')) \<and>
   Index_download
      \<lparr>full_name = ''data.misc'', board_securities = Inr [1::nat],
       listing_csv = Inr [2], board_history = (\<lambda>d::nat option. Inr [3])\<rparr> ''MCFTRR'' None
     = Inr [3]"
proof -
  let ?env = "\<lparr>full_name = ''data.misc'', board_securities = Inr [1::nat],
       listing_csv = Inr [2], board_history = (\<lambda>d::nat option. Inr [3])\<rparr>"
  note m = download_unknown_item_raises [of "''MCFTRR''" ?env None]
  note l = download_unknown_item_raises [of "''listing''" ?env None]
  have a: "''MCFTRR'' \<noteq> SECURITIES" "''MCFTRR'' \<noteq> LISTING" "''listing'' \<noteq> INDEX"
    and i: "''MCFTRR'' = INDEX"
    by (simp_all add: SECURITIES_def LISTING_def INDEX_def)
  have c1: "Securities_download ?env ''MCFTRR'' None
      = Inl (POptimizerError (no_data_text @ full_name ?env @ ''.'' @ ''MCFTRR''))"
    using m a(1) by blast
  have c2: "SecuritiesListing_download ?env ''MCFTRR'' None
      = Inl (POptimizerError (no_data_text @ full_name ?env @ ''.'' @ ''MCFTRR''))"
    using m a(2) by blast
  have c3: "Index_download ?env ''listing'' None
      = Inl (POptimizerError (no_data_text @ full_name ?env @ ''.'' @ ''listing''))"
    using l a(3) by blast
  have "Index_download ?env INDEX None = from_library (board_history ?env None)"
    using m by blast
  then have c4: "Index_download ?env ''MCFTRR'' None = Inr [3]"
    unfolding i [symmetric] by (simp add: from_library_def)
  from c1 c2 c3 c4 show ?thesis by simp
qed

section \<open>Properties of the example set\<close>

subsection \<open>Construction\<close>

lemma make_features_Inr:
  "make_features fm tickers date ps = Inr feats \<Longrightarrow>
   length feats = length ps \<and>
   (\<forall>i<length ps. getattr_feature fm (fst (ps ! i)) tickers date (snd (ps ! i)) = Inr (feats ! i))"
proof (induction ps arbitrary: feats)
  case Nil
  then show ?case by simp
next
  case (Cons a ps)
  obtain c q where a: "a = (c, q)" by (cases a)
  from Cons.prems a obtain f fs where
    f: "getattr_feature fm c tickers date q = Inr f"
    and fs: "make_features fm tickers date ps = Inr fs"
    and feats: "feats = f # fs"
    by (auto split: sum.splits)
  from Cons.IH [OF fs] have ih: "length fs = length ps"
    "\<forall>i<length ps. getattr_feature fm (fst (ps ! i)) tickers date (snd (ps ! i)) = Inr (fs ! i)"
    by simp_all
  show ?case
  proof (intro conjI allI impI)
    show "length feats = length (a # ps)" using ih(1) feats by simp
  next
    fix i assume "i < length (a # ps)"
    then show "getattr_feature fm (fst ((a # ps) ! i)) tickers date (snd ((a # ps) ! i))
      = Inr (feats ! i)"
      using ih(2) f a feats by (cases i) simp_all
  qed
qed

lemma Examples_init_Inr:
  assumes "Examples_init fm tickers date params = Inr ex"
  shows "\<exists>test_label feats.
           params \<noteq> [] \<and>
           getattr_feature fm (fst (hd params)) tickers date
             ((snd (hd params))(''days'' \<mapsto> PInt 1)) = Inr test_label \<and>
           make_features fm tickers date params = Inr feats \<and>
           ex = \<lparr>ex_tickers = tickers, ex_date = date, ex_params = params,
                  test_labels_params = (snd (hd params))(''days'' \<mapsto> PInt 1),
                  features = test_label # feats\<rparr>"
  using assms unfolding Examples_init_def
  by (auto simp: Let_def split: list.splits sum.splits)

lemma columns_pd_concat: "columns (pd_concat fs) = concat (map columns fs)"
  by (simp add: pd_concat_def columns_def [abs_def] reindex_def map_concat comp_def)

lemma map_zip_nth:
  "length xs \<le> length ys \<Longrightarrow>
   map f (zip xs ys) = map (\<lambda>i. f (xs ! i, ys ! i)) [0..<length xs]"
  by (rule nth_equalityI) simp_all

lemma demo_module_simps:
  "demo_module ''Label'' = Some (\<lambda>tickers date feat_params.
      \<lparr>name = ''Label'', col_names = [''Label''],
       get = (\<lambda>q. \<lparr>index = [(1, ''A''), (2, ''A'')],
                    cols = [\<lparr>s_name = ''Label'', s_values = (\<lambda>i. days_value q)\<rparr>]\<rparr>),
       is_categorical = (\<lambda>q. [False])\<rparr>)"
  "demo_module ''Scaler'' = Some (\<lambda>tickers date feat_params.
      \<lparr>name = ''Scaler'', col_names = [''Scaler''],
       get = (\<lambda>q. \<lparr>index = [(1, ''A''), (2, ''A'')],
                    cols = [\<lparr>s_name = ''Scaler'', s_values = (\<lambda>i. days_value q)\<rparr>]\<rparr>),
       is_categorical = (\<lambda>q. [False])\<rparr>)"
  "demo_module ''Mom12m'' = Some (\<lambda>tickers date feat_params.
      \<lparr>name = ''Mom12m'', col_names = [''Mom12m''],
       get = (\<lambda>q. \<lparr>index = [(1, ''A''), (2, ''A'')],
                    cols = [\<lparr>s_name = ''Mom12m'', s_values = (\<lambda>i. days_value q)\<rparr>]\<rparr>),
       is_categorical = (\<lambda>q. [False])\<rparr>)"
  by (simp_all add: demo_module_def table_module_def)

subsection \<open>\<open>get_features_names\<close>\<close>

text \<open>
  Claim C2, as the specification states it, is refuted by the example set of the tests'
  shape: the name of the scaler's column is among the names returned.
\<close>

theorem get_features_names_has_scaler_counterexample:
  "on_examples demo_module [''A''] 2 demo_params (\<lambda>ex. Inr (get_features_names ex))
     = Inr [''Scaler'', ''Mom12m'']"
  by (simp add: on_examples_def Examples_init_def getattr_feature_def demo_params_def
      demo_module_simps get_features_names_def)

text \<open>
  Claim C2, amended.  For an example set constructed from a parameter list,
  \<open>get_features_names\<close> returns the flattened column names of the providers of all entries
  but the first, in order: the columns of the second entry's provider (the scaler) come
  first, the predictive providers' after them, and only the columns of the test label and
  of the production label are left out.  Its length is the number of those columns.
\<close>

theorem get_features_names_skips_two_providers:
  assumes "Examples_init fm tickers date params = Inr ex"
  shows "\<exists>test_label production_label others.
           features ex = test_label # production_label # others \<and>
           make_features fm tickers date (tl params) = Inr others \<and>
           get_features_names ex = concat (map col_names others) \<and>
           length (get_features_names ex) = sum_list (map (\<lambda>f. length (col_names f)) others)"
proof -
  from Examples_init_Inr [OF assms] obtain test_label feats where
    ne: "params \<noteq> []"
    and mk: "make_features fm tickers date params = Inr feats"
    and ex: "ex = \<lparr>ex_tickers = tickers, ex_date = date, ex_params = params,
                  test_labels_params = (snd (hd params))(''days'' \<mapsto> PInt 1),
                  features = test_label # feats\<rparr>"
    by blast
  from ne obtain c q rest where p: "params = (c, q) # rest"
    by (cases params) auto
  from mk p obtain production_label others where
    o: "make_features fm tickers date rest = Inr others"
    and f: "feats = production_label # others"
    by (auto split: sum.splits)
  have "get_features_names ex = concat (map col_names others)"
    using ex f by (simp add: get_features_names_def)
  moreover have "length (concat (map col_names others))
      = sum_list (map (\<lambda>f. length (col_names f)) others)"
    by (simp add: length_concat comp_def)
  ultimately show ?thesis using ex f o p by simp
qed

theorem get_features_names_skips_two_providers_witness:
  "on_examples demo_module [''A''] 2 demo_params (\<lambda>ex. Inr (length (get_features_names ex)))
     = Inr 2"
proof -
  obtain ex where init: "Examples_init demo_module [''A''] 2 demo_params = Inr ex"
    by (simp add: Examples_init_def getattr_feature_def demo_params_def demo_module_simps)
  from get_features_names_skips_two_providers [OF init] obtain others where
    o: "make_features demo_module [''A''] 2 (tl demo_params) = Inr others"
    and n: "length (get_features_names ex) = sum_list (map (\<lambda>f. length (col_names f)) others)"
    by blast
  from o have "length (get_features_names ex) = 2"
    unfolding n by (auto simp: demo_params_def getattr_feature_def demo_module_simps)
  then show ?thesis by (simp add: on_examples_def init)
qed

subsection \<open>\<open>get_all\<close>\<close>

text \<open>
  Claim C6, as the specification states it for every parameter list, is refuted by a list
  shorter than the one the example set was constructed with: \<open>zip\<close> stops at the shorter
  list, and the joined data set has the test label and the production label but no scaler
  column and no predictive column.
\<close>

theorem get_all_short_params_counterexample:
  "on_examples demo_module [''A''] 2 demo_params
     (\<lambda>ex. map_sum id columns (get_all ex [(''Label'', [''days'' \<mapsto> PInt 20])]))
     = Inr [''Label'', ''Label'']"
  by (simp add: on_examples_def Examples_init_def getattr_feature_def demo_params_def
      demo_module_simps get_all_def pd_concat_def reindex_def columns_def)

text \<open>
  Claim C6, amended.  For an example set constructed from a parameter list and every
  parameter list passed to \<open>get_all\<close>: the joined data set is the side-by-side
  concatenation of the test-label provider's data, computed with the stored parameters
  whose \<open>days\<close> is 1 whatever list is passed, followed by the data of the providers of the
  construction entries in order (production label, scaler, predictive providers), each
  computed with the parameters at its position in the list passed, as far as that list
  reaches.  When the list passed has at least as many entries as the one the example set
  was constructed with, every provider contributes, so the columns are, in this order,
  the test label's, the production label's, the scaler's and the predictive ones.
\<close>

theorem get_all_column_order:
  assumes "Examples_init fm tickers date params0 = Inr ex"
  shows "\<exists>test_label feats df.
           features ex = test_label # feats \<and> length feats = length params0 \<and>
           getattr_feature fm (fst (hd params0)) tickers date
             ((snd (hd params0))(''days'' \<mapsto> PInt 1)) = Inr test_label \<and>
           (\<forall>i<length params0.
              getattr_feature fm (fst (params0 ! i)) tickers date (snd (params0 ! i))
                = Inr (feats ! i)) \<and>
           test_labels_params ex = (snd (hd params0))(''days'' \<mapsto> PInt 1) \<and>
           get_all ex params = Inr df \<and>
           df = pd_concat (get test_label ((snd (hd params0))(''days'' \<mapsto> PInt 1)) #
                  map (\<lambda>(feat, (_, feat_params)). get feat feat_params) (zip feats params)) \<and>
           columns df = columns (get test_label ((snd (hd params0))(''days'' \<mapsto> PInt 1))) @
                  concat (map (\<lambda>(feat, (_, feat_params)). columns (get feat feat_params))
                            (zip feats params)) \<and>
           (length params0 \<le> length params \<longrightarrow>
              columns df = columns (get test_label ((snd (hd params0))(''days'' \<mapsto> PInt 1))) @
                  concat (map (\<lambda>i. columns (get (feats ! i) (snd (params ! i))))
                            [0..<length params0]))"
proof -
  from Examples_init_Inr [OF assms] obtain test_label feats where
    tl: "getattr_feature fm (fst (hd params0)) tickers date
             ((snd (hd params0))(''days'' \<mapsto> PInt 1)) = Inr test_label"
    and mk: "make_features fm tickers date params0 = Inr feats"
    and ex: "ex = \<lparr>ex_tickers = tickers, ex_date = date, ex_params = params0,
                  test_labels_params = (snd (hd params0))(''days'' \<mapsto> PInt 1),
                  features = test_label # feats\<rparr>"
    by blast
  from make_features_Inr [OF mk] have len: "length feats = length params0"
    and each: "\<forall>i<length params0.
              getattr_feature fm (fst (params0 ! i)) tickers date (snd (params0 ! i))
                = Inr (feats ! i)"
    by simp_all
  let ?tlp = "(snd (hd params0))(''days'' \<mapsto> PInt 1)"
  let ?df = "pd_concat (get test_label ?tlp #
                  map (\<lambda>(feat, (_, feat_params)). get feat feat_params) (zip feats params))"
  have g: "get_all ex params = Inr ?df"
    unfolding get_all_def ex by simp
  have c: "columns ?df = columns (get test_label ?tlp) @
      concat (map (\<lambda>(feat, (_, feat_params)). columns (get feat feat_params))
                (zip feats params))"
    by (simp add: columns_pd_concat comp_def case_prod_unfold)
  have full: "columns ?df = columns (get test_label ?tlp) @
      concat (map (\<lambda>i. columns (get (feats ! i) (snd (params ! i)))) [0..<length params0])"
    if le: "length params0 \<le> length params"
  proof -
    have "map (\<lambda>(feat, (_, feat_params)). columns (get feat feat_params)) (zip feats params)
      = map (\<lambda>i. (\<lambda>(feat, (_, feat_params)). columns (get feat feat_params))
                     (feats ! i, params ! i)) [0..<length feats]"
      by (rule map_zip_nth) (simp add: len le)
    then have "map (\<lambda>(feat, (_, feat_params)). columns (get feat feat_params)) (zip feats params)
      = map (\<lambda>i. columns (get (feats ! i) (snd (params ! i)))) [0..<length params0]"
      by (simp add: len case_prod_beta)
    with c show ?thesis by simp
  qed
  have feat: "features ex = test_label # feats"
    and tp: "test_labels_params ex = ?tlp"
    by (simp_all add: ex)
  from feat len tl each tp g c full show ?thesis by blast
qed

theorem get_all_column_order_witness:
  "on_examples demo_module [''A''] 2 demo_params
     (\<lambda>ex. map_sum id columns
        (get_all ex [(''Label'', [''days'' \<mapsto> PInt 5]), (''Scaler'', [''days'' \<mapsto> PInt 100]),
                     (''Mom12m'', [''days'' \<mapsto> PInt 200])]))
     = Inr [''Label'', ''Label'', ''Scaler'', ''Mom12m'']"
proof -
  let ?ps = "[(''Label'', [''days'' \<mapsto> PInt 5]), (''Scaler'', [''days'' \<mapsto> PInt 100]),
              (''Mom12m'', [''days'' \<mapsto> PInt (200::int)])]"
  obtain ex where init: "Examples_init demo_module [''A''] 2 demo_params = Inr ex"
    by (simp add: Examples_init_def getattr_feature_def demo_params_def demo_module_simps)
  have len: "length demo_params \<le> length ?ps"
    by (simp add: demo_params_def)
  from get_all_column_order [OF init, of ?ps] len obtain test_label feats df where
    t: "getattr_feature demo_module (fst (hd demo_params)) [''A''] 2
             ((snd (hd demo_params))(''days'' \<mapsto> PInt 1)) = Inr test_label"
    and each: "\<forall>i<length demo_params.
              getattr_feature demo_module (fst (demo_params ! i)) [''A''] 2 (snd (demo_params ! i))
                = Inr (feats ! i)"
    and g: "get_all ex ?ps = Inr df"
    and c: "columns df = columns (get test_label ((snd (hd demo_params))(''days'' \<mapsto> PInt 1))) @
                  concat (map (\<lambda>i. columns (get (feats ! i) (snd (?ps ! i))))
                            [0..<length demo_params])"
    by blast
  have three: "[0..<length demo_params] = [0, 1, 2]"
    by (simp add: demo_params_def upt_rec)
  have f: "getattr_feature demo_module ''Label'' [''A''] 2 [''days'' \<mapsto> PInt 20] = Inr (feats ! 0)"
    "getattr_feature demo_module ''Scaler'' [''A''] 2 [''days'' \<mapsto> PInt 150] = Inr (feats ! 1)"
    "getattr_feature demo_module ''Mom12m'' [''A''] 2 [''days'' \<mapsto> PInt 252] = Inr (feats ! 2)"
    using each [rule_format, of 0] each [rule_format, of 1] each [rule_format, of 2]
    by (simp_all add: demo_params_def)
  have "columns df = [''Label'', ''Label'', ''Scaler'', ''Mom12m'']"
    unfolding c three using t [symmetric] f [symmetric]
    by (simp add: getattr_feature_def demo_module_simps columns_def demo_params_def)
  then show ?thesis by (simp add: on_examples_def init g)
qed

subsection \<open>Construction with the dictionaries in a store\<close>

lemma construct_all_Inr:
  "construct_all known tickers date ps = Inr feats \<Longrightarrow>
   length feats = length ps \<and>
   (\<forall>i<length ps. po_cls (feats ! i) = fst (ps ! i) \<and> po_params (feats ! i) = snd (ps ! i))"
proof (induction ps arbitrary: feats)
  case Nil
  then show ?case by simp
next
  case (Cons a ps)
  obtain c r where a: "a = (c, r)" by (cases a)
  from Cons.prems a obtain f fs where
    f: "construct known c tickers date r = Inr f"
    and fs: "construct_all known tickers date ps = Inr fs"
    and feats: "feats = f # fs"
    by (auto split: sum.splits)
  from f have f': "po_cls f = c" "po_params f = r"
    by (auto simp: construct_def split: if_splits)
  from Cons.IH [OF fs] have ih: "length fs = length ps"
    "\<forall>i<length ps. po_cls (fs ! i) = fst (ps ! i) \<and> po_params (fs ! i) = snd (ps ! i)"
    by simp_all
  show ?case
  proof (intro conjI allI impI)
    show "length feats = length (a # ps)" using ih(1) feats by simp
  next
    fix i assume "i < length (a # ps)"
    then show "po_cls (feats ! i) = fst ((a # ps) ! i)"
      using ih(2) f' a feats by (cases i) simp_all
  next
    fix i assume "i < length (a # ps)"
    then show "po_params (feats ! i) = snd ((a # ps) ! i)"
      using ih(2) f' a feats by (cases i) simp_all
  qed
qed

lemma Examples_init_store_Inr:
  assumes "Examples_init_store known st tickers date params = Inr (ex, st')"
  shows "\<exists>test_label feats.
           params \<noteq> [] \<and>
           construct known (fst (hd params)) tickers date (length st) = Inr test_label \<and>
           construct_all known tickers date params = Inr feats \<and>
           ex = \<lparr>eo_tickers = tickers, eo_date = date, eo_params = params,
                  eo_test_labels_params = length st, eo_features = test_label # feats\<rparr> \<and>
           st' = st @ [(st ! snd (hd params))(''days'' \<mapsto> PInt 1)]"
  using assms unfolding Examples_init_store_def deepcopy_def setitem_def
  by (auto simp: Let_def split: list.splits sum.splits)

text \<open>
  Claim C8.  When \<open>__init__\<close> returns, every dictionary that existed before, those of the
  caller's parameter list among them, has the items it had; the parameter list is stored
  as given; the test-label parameters are a dictionary at a new address, which is the
  address of no entry of the list, and hold the items of the first entry's dictionary with
  \<open>days\<close> set to 1; the first provider is of the first entry's class and holds that new
  dictionary; the provider of each entry holds the entry's own dictionary, unchanged, so
  the production label keeps its \<open>days\<close>.
\<close>

theorem Examples_init_store_no_aliasing:
  assumes "Examples_init_store known st tickers date params = Inr (ex, st')"
    and "\<forall>i<length params. snd (params ! i) < length st"
  shows "eo_params ex = params \<and>
         (\<forall>a<length st. st' ! a = st ! a) \<and>
         length st' = Suc (length st) \<and>
         eo_test_labels_params ex = length st \<and>
         st' ! eo_test_labels_params ex = (st ! snd (hd params))(''days'' \<mapsto> PInt 1) \<and>
         length (eo_features ex) = Suc (length params) \<and>
         po_cls (eo_features ex ! 0) = fst (hd params) \<and>
         po_params (eo_features ex ! 0) = eo_test_labels_params ex \<and>
         (\<forall>i<length params.
            po_cls (eo_features ex ! Suc i) = fst (params ! i) \<and>
            po_params (eo_features ex ! Suc i) = snd (params ! i) \<and>
            po_params (eo_features ex ! Suc i) \<noteq> eo_test_labels_params ex \<and>
            st' ! po_params (eo_features ex ! Suc i) = st ! snd (params ! i)) \<and>
         (st' ! po_params (eo_features ex ! 1)) ''days'' = (st ! snd (hd params)) ''days''"
proof -
  from Examples_init_store_Inr [OF assms(1)] obtain test_label feats where
    ne: "params \<noteq> []"
    and t: "construct known (fst (hd params)) tickers date (length st) = Inr test_label"
    and fs: "construct_all known tickers date params = Inr feats"
    and ex: "ex = \<lparr>eo_tickers = tickers, eo_date = date, eo_params = params,
                  eo_test_labels_params = length st, eo_features = test_label # feats\<rparr>"
    and st': "st' = st @ [(st ! snd (hd params))(''days'' \<mapsto> PInt 1)]"
    by blast
  from t have t': "po_cls test_label = fst (hd params)" "po_params test_label = length st"
    by (auto simp: construct_def split: if_splits)
  from construct_all_Inr [OF fs] have len: "length feats = length params"
    and each: "\<forall>i<length params.
      po_cls (feats ! i) = fst (params ! i) \<and> po_params (feats ! i) = snd (params ! i)"
    by simp_all
  have old: "\<forall>a<length st. st' ! a = st ! a"
    by (simp add: st' nth_append)
  have rest: "\<forall>i<length params.
            po_cls (eo_features ex ! Suc i) = fst (params ! i) \<and>
            po_params (eo_features ex ! Suc i) = snd (params ! i) \<and>
            po_params (eo_features ex ! Suc i) \<noteq> eo_test_labels_params ex \<and>
            st' ! po_params (eo_features ex ! Suc i) = st ! snd (params ! i)"
    using each assms(2) old by (auto simp: ex)
  have hd0: "snd (hd params) = snd (params ! 0)" "0 < length params"
    using ne by (simp_all add: hd_conv_nth)
  have days: "(st' ! po_params (eo_features ex ! 1)) ''days'' = (st ! snd (hd params)) ''days''"
    using rest hd0 by (metis One_nat_def)
  have c1: "eo_params ex = params" and c4: "eo_test_labels_params ex = length st"
    and c6: "length (eo_features ex) = Suc (length params)"
    and c7: "po_cls (eo_features ex ! 0) = fst (hd params)"
    and c8: "po_params (eo_features ex ! 0) = eo_test_labels_params ex"
    using t' len by (simp_all add: ex)
  have c3: "length st' = Suc (length st)"
    and c5: "st' ! eo_test_labels_params ex = (st ! snd (hd params))(''days'' \<mapsto> PInt 1)"
    by (simp_all add: st' ex)
  from c1 old c3 c4 c5 c6 c7 c8 rest days show ?thesis by blast
qed

theorem Examples_init_store_no_aliasing_witness:
  "map_sum id
     (\<lambda>(ex, st'). (eo_test_labels_params ex,
                   (st' ! po_params (eo_features ex ! 1)) ''days'',
                   (st' ! eo_test_labels_params ex) ''days''))
     (Examples_init_store (\<lambda>c. True)
        [[''days'' \<mapsto> PInt 20, ''div_share'' \<mapsto> PFloat 0], [''days'' \<mapsto> PInt 150]]
        [''A''] 2 [(''Label'', 0), (''Scaler'', 1)])
   = Inr (2, Some (PInt 20), Some (PInt 1))"
proof -
  let ?st = "[[''days'' \<mapsto> PInt 20, ''div_share'' \<mapsto> PFloat 0], [''days'' \<mapsto> PInt 150]]"
  let ?ps = "[(''Label'', 0::nat), (''Scaler'', 1)]"
  obtain ex st' where init:
    "Examples_init_store (\<lambda>c. True) ?st [''A''] 2 ?ps = Inr (ex, st')"
    by (simp add: Examples_init_store_def deepcopy_def construct_def)
  have valid: "\<forall>i<length ?ps. snd (?ps ! i) < length ?st"
    by (simp add: less_Suc_eq)
  from Examples_init_store_no_aliasing [OF init valid]
  have a: "eo_test_labels_params ex = length ?st"
    and b: "st' ! eo_test_labels_params ex = (?st ! snd (hd ?ps))(''days'' \<mapsto> PInt 1)"
    and c: "(st' ! po_params (eo_features ex ! 1)) ''days'' = (?st ! snd (hd ?ps)) ''days''"
    by blast+
  have "eo_test_labels_params ex = 2" using a by simp
  moreover have "(st' ! eo_test_labels_params ex) ''days'' = Some (PInt 1)"
    unfolding b by simp
  moreover have "(st' ! po_params (eo_features ex ! 1)) ''days'' = Some (PInt 20)"
    unfolding c by simp
  ultimately show ?thesis unfolding init by simp
qed

section \<open>Properties of the pools\<close>

subsection \<open>What a successful call has computed\<close>

lemma pool_params_Inr:
  assumes "pool_params ex p df part with_label = Inr pl"
  shows "2 < length (cols part) \<and>
         pool_data pl = iloc_from 2 part \<and>
         pool_weight pl = map (\<lambda>i. inverse_square (s_values (cols part ! 2) i)) (index part) \<and>
         pool_label pl = (if with_label then Some (map (s_values (cols part ! 1)) (index part))
                          else None) \<and>
         pool_cat_features pl = categorical_features ex p \<and>
         pool_feature_names pl = drop 2 (columns df)"
  using assms unfolding pool_params_def iloc_col_def
  by (auto split: if_splits sum.splits)

lemma train_val_pool_params_Inr:
  assumes "train_val_pool_params ex p = Inr (tr, va)"
  shows "\<exists>joined val_start label_days train_end.
           get_all ex (params_or p (ex_params ex)) = Inr joined \<and>
           val_start_of (get_level_values_0 (dropna joined)) = Inr val_start \<and>
           label_days_of (params_or p (ex_params ex)) = Inr label_days \<and>
           train_end_of (get_level_values_0 (dropna joined)) val_start label_days = Inr train_end \<and>
           pool_params ex (Some (params_or p (ex_params ex))) (dropna joined)
             (select_dates (\<lambda>d. d \<le> train_end) (dropna joined)) True = Inr tr \<and>
           pool_params ex (Some (params_or p (ex_params ex))) (dropna joined)
             (select_dates (\<lambda>d. d \<ge> val_start) (dropna joined)) True = Inr va"
  using assms unfolding train_val_pool_params_def
  by (auto simp: Let_def split: sum.splits)

lemma train_predict_pool_params_Inr:
  assumes "train_predict_pool_params ex = Inr (tr, pr)"
  shows "\<exists>joined.
           get_all ex (ex_params ex) = Inr joined \<and>
           pool_params ex None joined (select_dates (\<lambda>d. d = ex_date ex) joined) False = Inr pr \<and>
           pool_params ex None (dropna joined) (dropna joined) True = Inr tr"
  using assms unfolding train_predict_pool_params_def
  by (auto simp: Let_def split: sum.splits)

lemma index_select_dates [simp]:
  "index (select_dates keep df) = filter (\<lambda>i. keep (fst i)) (index df)"
  "cols (select_dates keep df) = cols df"
  by (simp_all add: select_dates_def)

lemma index_dropna [simp]:
  "index (dropna df) = filter (complete_row df) (index df)"
  "cols (dropna df) = cols df"
  by (simp_all add: dropna_def)

lemma index_iloc_from [simp]:
  "index (iloc_from n df) = index df"
  "cols (iloc_from n df) = drop n (cols df)"
  by (simp_all add: iloc_from_def)

lemma complete_row_nth:
  "complete_row df i \<Longrightarrow> j < length (cols df) \<Longrightarrow> s_values (cols df ! j) i \<noteq> None"
  by (simp add: complete_row_def list_all_length)

lemma inverse_square_NaN: "inverse_square c = NaN \<longleftrightarrow> c = None"
  by (simp add: inverse_square_def split: option.splits)

lemma weight_of_complete_rows:
  assumes "pool_params ex p df part with_label = Inr pl"
    and "\<forall>i\<in>set (index part). complete_row part i"
  shows "NaN \<notin> set (pool_weight pl)"
proof -
  from pool_params_Inr [OF assms(1)] have c: "2 < length (cols part)"
    and w: "pool_weight pl = map (\<lambda>i. inverse_square (s_values (cols part ! 2) i)) (index part)"
    by simp_all
  show ?thesis
  proof
    assume "NaN \<in> set (pool_weight pl)"
    then obtain i where i: "i \<in> set (index part)"
      and n: "inverse_square (s_values (cols part ! 2) i) = NaN"
      unfolding w by auto
    from assms(2) i have "complete_row part i" by blast
    then have "s_values (cols part ! 2) i \<noteq> None" using c by (rule complete_row_nth)
    with n show False by (simp add: inverse_square_NaN)
  qed
qed


subsection \<open>Distinct dates and the two boundaries\<close>

lemma set_unique_from: "set (unique_from seen xs) = set xs - set seen"
  by (induction xs arbitrary: seen) auto

lemma distinct_unique_from: "distinct (unique_from seen xs)"
  by (induction xs arbitrary: seen) (auto simp: set_unique_from)

lemma sorted_unique_from: "sorted xs \<Longrightarrow> sorted (unique_from seen xs)"
  by (induction xs arbitrary: seen) (auto simp: set_unique_from)

lemma filter_unique_from:
  "\<forall>s. P s \<longrightarrow> (s \<in> set seen \<longleftrightarrow> s \<in> set seen') \<Longrightarrow>
   filter P (unique_from seen xs) = unique_from seen' (filter P xs)"
proof (induction xs arbitrary: seen seen')
  case Nil
  show ?case by simp
next
  case (Cons x xs)
  show ?case
  proof (cases "P x")
    case True
    with Cons.prems have m: "x \<in> set seen \<longleftrightarrow> x \<in> set seen'" by blast
    have "\<forall>s. P s \<longrightarrow> (s \<in> set (x # seen) \<longleftrightarrow> s \<in> set (x # seen'))"
      using Cons.prems by auto
    from Cons.IH [OF this] Cons.IH [OF Cons.prems] True m show ?thesis by simp
  next
    case False
    have "\<forall>s. P s \<longrightarrow> (s \<in> set (x # seen) \<longleftrightarrow> s \<in> set seen')"
      using Cons.prems False by auto
    from Cons.IH [OF this] Cons.IH [OF Cons.prems] False show ?thesis by simp
  qed
qed

lemma set_unique: "set (unique xs) = set xs"
  by (simp add: unique_def set_unique_from)

lemma distinct_unique: "distinct (unique xs)"
  by (simp add: unique_def distinct_unique_from)

lemma sorted_unique: "sorted xs \<Longrightarrow> sorted (unique xs)"
  by (simp add: unique_def sorted_unique_from)

lemma filter_unique: "filter P (unique xs) = unique (filter P xs)"
  unfolding unique_def by (rule filter_unique_from) simp

lemma filter_greater_nth:
  fixes xs :: "int list"
  assumes "sorted xs" "distinct xs" "k < length xs"
  shows "filter (\<lambda>d. xs ! k < d) xs = drop (Suc k) xs"
proof -
  have s: "sorted_wrt (<) xs" using assms by (simp add: strict_sorted_iff)
  have xs: "xs = take k xs @ xs ! k # drop (Suc k) xs"
    using assms(3) by (rule id_take_nth_drop)
  from s have "sorted_wrt (<) (take k xs @ xs ! k # drop (Suc k) xs)"
    using xs by simp
  then have lo: "\<forall>y\<in>set (take k xs). y < xs ! k"
    and hi: "\<forall>y\<in>set (drop (Suc k) xs). xs ! k < y"
    by (auto simp: sorted_wrt_append)
  have "filter (\<lambda>d. xs ! k < d) (take k xs @ xs ! k # drop (Suc k) xs) = drop (Suc k) xs"
    using lo hi by (auto simp: filter_empty_conv)
  with xs show ?thesis by simp
qed

lemma floor_nine_tenths: "\<lfloor>real n * TRAIN_VAL_SPLIT\<rfloor> = int ((n * 9) div 10)"
proof -
  have "real n * TRAIN_VAL_SPLIT = real (n * 9) / real 10"
    by (simp add: TRAIN_VAL_SPLIT_def)
  then show ?thesis by (simp only: floor_divide_of_nat_eq)
qed

lemma py_index_Inr_mem: "py_index xs i = Inr x \<Longrightarrow> x \<in> set xs"
  by (auto simp: py_index_def split: if_splits)

lemma py_index_from_end:
  "py_index xs (- k) = Inr x \<Longrightarrow> 1 \<le> k \<Longrightarrow>
   nat k \<le> length xs \<and> x = xs ! (length xs - nat k)"
  by (auto simp: py_index_def nat_diff_distrib' split: if_splits)

lemma val_start_of_Inr:
  assumes "val_start_of dates = Inr v"
  shows "dates \<noteq> [] \<and> v = dates ! ((length dates * 9) div 10) \<and> v \<in> set dates"
proof -
  from assms have i: "py_index dates (int ((length dates * 9) div 10)) = Inr v"
    by (simp add: val_start_of_def floor_nine_tenths)
  then have "v \<in> set dates" by (rule py_index_Inr_mem)
  moreover from i have "v = dates ! ((length dates * 9) div 10)"
    by (auto simp: py_index_def split: if_splits)
  ultimately show ?thesis by auto
qed

lemma train_end_of_Inr:
  assumes "train_end_of dates v k = Inr e"
  shows "e \<in> set dates \<and> e < v"
proof -
  from assms have "e \<in> set (unique (filter (\<lambda>d. d < v) dates))"
    unfolding train_end_of_def by (rule py_index_Inr_mem)
  then show ?thesis by (simp add: set_unique)
qed

lemma train_end_of_between:
  assumes "train_end_of dates v k = Inr e" and "1 \<le> k" and "sorted dates"
  shows "length (dates_between dates e v) = nat (k - 1)"
proof -
  let ?pre = "unique (filter (\<lambda>d. d < v) dates)"
  from assms(1,2) have k: "nat k \<le> length ?pre" and e: "e = ?pre ! (length ?pre - nat k)"
    unfolding train_end_of_def by (auto dest: py_index_from_end)
  have kpos: "0 < nat k" using assms(2) by simp
  then have lt: "length ?pre - nat k < length ?pre" using k by simp
  have srt: "sorted ?pre" by (rule sorted_unique) (simp add: assms(3) sorted_wrt_filter)
  have dst: "distinct ?pre" by (rule distinct_unique)
  have "dates_between dates e v = filter (\<lambda>d. e < d) (filter (\<lambda>d. d < v) (unique dates))"
    by (simp add: dates_between_def conj_commute)
  also have "\<dots> = filter (\<lambda>d. e < d) ?pre"
    by (simp add: filter_unique)
  also have "\<dots> = drop (Suc (length ?pre - nat k)) ?pre"
    unfolding e using srt dst lt by (rule filter_greater_nth)
  finally have "length (dates_between dates e v) = length ?pre - Suc (length ?pre - nat k)"
    by simp
  also have "\<dots> = nat k - 1" using k kpos by simp
  also have "\<dots> = nat (k - 1)" using assms(2) by simp
  finally show ?thesis .
qed


lemmas pools_eval =
  on_examples_def Examples_init_def getattr_feature_def table_module_def
  label_scaler_params_def train_val_pool_params_def train_predict_pool_params_def
  params_or_def get_all_def pd_concat_def reindex_def unique_def dropna_def
  complete_row_def get_level_values_0_def val_start_of_def TRAIN_VAL_SPLIT_def
  py_index_def select_dates_def label_days_of_def train_end_of_def pool_params_def
  iloc_col_def iloc_from_def inverse_square_def categorical_features_def columns_def

subsection \<open>Weights\<close>

text \<open>
  Claim C5, as the specification states it, is refuted twice.  A row whose scaler is zero
  is kept in the training pool, and its weight is the infinity that the division by zero
  gives.  A row at the as-of date whose scaler is absent is kept in the prediction pool,
  and its weight is not a number.
\<close>

theorem weight_on_zero_or_missing_scaler_counterexample:
  "map_sum id (\<lambda>(tr, va). (pool_weight tr, pool_weight va))
     (on_examples zero_scaler_module [''A''] 2 (label_scaler_params 1)
        (\<lambda>ex. train_val_pool_params ex None)) = Inr ([Infinity], [Finite 1]) \<and>
   map_sum id (\<lambda>(tr, pr). (pool_weight tr, pool_weight pr))
     (on_examples missing_scaler_module [''A''] 2 (label_scaler_params 1)
        train_predict_pool_params) = Inr ([Finite 1], [NaN])"
  by (simp add: pools_eval zero_scaler_module_def missing_scaler_module_def)

text \<open>
  Claim C5, amended.  In the training and validation pools of \<open>train_val_pool_params\<close> and
  in the training pool of \<open>train_predict_pool_params\<close>, every row has a value in every
  column of the joined data set: the rows with an absent value, an absent scaler among
  them, are dropped before the weights are built, so no weight of these pools is computed
  on an absent scaler.  The training pool of \<open>train_predict_pool_params\<close> has all the
  complete rows, whatever their scaler, and the prediction pool has all the rows of the
  as-of date, complete or not.
\<close>

theorem weights_of_training_pools_defined:
  "(train_val_pool_params ex p = Inr (tr, va) \<longrightarrow>
      NaN \<notin> set (pool_weight tr) \<and> NaN \<notin> set (pool_weight va) \<and>
      (\<exists>joined. get_all ex (params_or p (ex_params ex)) = Inr joined \<and>
         (\<forall>i\<in>set (index (pool_data tr)) \<union> set (index (pool_data va)).
            complete_row joined i))) \<and>
   (train_predict_pool_params ex = Inr (tr', pr) \<longrightarrow>
      NaN \<notin> set (pool_weight tr') \<and>
      (\<exists>joined. get_all ex (ex_params ex) = Inr joined \<and>
         index (pool_data tr') = filter (complete_row joined) (index joined) \<and>
         index (pool_data pr) = filter (\<lambda>i. fst i = ex_date ex) (index joined)))"
proof (intro conjI impI)
  assume a: "train_val_pool_params ex p = Inr (tr, va)"
  from train_val_pool_params_Inr [OF a] obtain joined val_start train_end where
    j: "get_all ex (params_or p (ex_params ex)) = Inr joined"
    and t: "pool_params ex (Some (params_or p (ex_params ex))) (dropna joined)
             (select_dates (\<lambda>d. d \<le> train_end) (dropna joined)) True = Inr tr"
    and v: "pool_params ex (Some (params_or p (ex_params ex))) (dropna joined)
             (select_dates (\<lambda>d. d \<ge> val_start) (dropna joined)) True = Inr va"
    by blast
  have ct: "\<forall>i\<in>set (index (select_dates (\<lambda>d. d \<le> train_end) (dropna joined))).
      complete_row (select_dates (\<lambda>d. d \<le> train_end) (dropna joined)) i"
    by (simp add: complete_row_def)
  have cv: "\<forall>i\<in>set (index (select_dates (\<lambda>d. d \<ge> val_start) (dropna joined))).
      complete_row (select_dates (\<lambda>d. d \<ge> val_start) (dropna joined)) i"
    by (simp add: complete_row_def)
  show "NaN \<notin> set (pool_weight tr)" using weight_of_complete_rows [OF t ct] .
  show "NaN \<notin> set (pool_weight va)" using weight_of_complete_rows [OF v cv] .
  have "\<forall>i\<in>set (index (pool_data tr)) \<union> set (index (pool_data va)). complete_row joined i"
    using pool_params_Inr [OF t] pool_params_Inr [OF v] by auto
  with j show "\<exists>joined. get_all ex (params_or p (ex_params ex)) = Inr joined \<and>
         (\<forall>i\<in>set (index (pool_data tr)) \<union> set (index (pool_data va)).
            complete_row joined i)" by blast
next
  assume a: "train_predict_pool_params ex = Inr (tr', pr)"
  from train_predict_pool_params_Inr [OF a] obtain joined where
    j: "get_all ex (ex_params ex) = Inr joined"
    and pr: "pool_params ex None joined (select_dates (\<lambda>d. d = ex_date ex) joined) False = Inr pr"
    and t: "pool_params ex None (dropna joined) (dropna joined) True = Inr tr'"
    by blast
  have ct: "\<forall>i\<in>set (index (dropna joined)). complete_row (dropna joined) i"
    by (simp add: complete_row_def)
  show "NaN \<notin> set (pool_weight tr')" using weight_of_complete_rows [OF t ct] .
  have "index (pool_data tr') = filter (complete_row joined) (index joined)"
    using pool_params_Inr [OF t] by simp
  moreover have "index (pool_data pr) = filter (\<lambda>i. fst i = ex_date ex) (index joined)"
    using pool_params_Inr [OF pr] by simp
  ultimately show "\<exists>joined. get_all ex (ex_params ex) = Inr joined \<and>
         index (pool_data tr') = filter (complete_row joined) (index joined) \<and>
         index (pool_data pr) = filter (\<lambda>i. fst i = ex_date ex) (index joined)"
    using j by blast
qed

theorem weights_of_training_pools_defined_witness:
  "on_examples zero_scaler_module [''A''] 2 (label_scaler_params 1)
     (\<lambda>ex. map_sum id (\<lambda>(tr, va). (NaN \<in> set (pool_weight tr), NaN \<in> set (pool_weight va)))
        (train_val_pool_params ex None)) = Inr (False, False) \<and>
   on_examples missing_scaler_module [''A''] 2 (label_scaler_params 1)
     (\<lambda>ex. map_sum id (\<lambda>(tr, pr). NaN \<in> set (pool_weight tr))
        (train_predict_pool_params ex)) = Inr False"
proof -
  obtain ex where init:
    "Examples_init zero_scaler_module [''A''] 2 (label_scaler_params 1) = Inr ex"
    by (simp add: Examples_init_def getattr_feature_def table_module_def
        label_scaler_params_def zero_scaler_module_def)
  have "on_examples zero_scaler_module [''A''] 2 (label_scaler_params 1)
     (\<lambda>ex. map_sum id (\<lambda>r. ()) (train_val_pool_params ex None)) = Inr ()"
    by (simp add: pools_eval zero_scaler_module_def)
  then obtain tr va where tv: "train_val_pool_params ex None = Inr (tr, va)"
    unfolding on_examples_def init by (cases "train_val_pool_params ex None") auto
  obtain ex' where init':
    "Examples_init missing_scaler_module [''A''] 2 (label_scaler_params 1) = Inr ex'"
    by (simp add: Examples_init_def getattr_feature_def table_module_def
        label_scaler_params_def missing_scaler_module_def)
  have "on_examples missing_scaler_module [''A''] 2 (label_scaler_params 1)
     (\<lambda>ex. map_sum id (\<lambda>r. ()) (train_predict_pool_params ex)) = Inr ()"
    by (simp add: pools_eval missing_scaler_module_def)
  then obtain tr' pr where tp: "train_predict_pool_params ex' = Inr (tr', pr)"
    unfolding on_examples_def init' by (cases "train_predict_pool_params ex'") auto
  from weights_of_training_pools_defined [where ex = ex and p = None and tr = tr and va = va] tv
  have a: "NaN \<notin> set (pool_weight tr)" "NaN \<notin> set (pool_weight va)" by blast+
  from weights_of_training_pools_defined [where ex = ex' and tr' = tr' and pr = pr] tp
  have b: "NaN \<notin> set (pool_weight tr')" by blast
  show ?thesis
    using a b by (simp add: on_examples_def init init' tv tp)
qed

subsection \<open>The split point\<close>

text \<open>
  Claim C3, as the specification states it, is refuted by data with different numbers of
  rows per date.  With one row on date 1, ten on date 2 and one on date 3, the row at nine
  tenths of the twelve rows has date 2, so the validation block starts at date 2 and has
  eleven rows; the date at nine tenths of the three distinct dates is date 3.
\<close>

theorem split_at_distinct_dates_counterexample:
  "map_sum id (\<lambda>(tr, va). (map fst (index (pool_data tr)), map fst (index (pool_data va))))
     (on_examples unbalanced_module [''A''] 3 (label_scaler_params 1)
        (\<lambda>ex. train_val_pool_params ex None))
     = Inr ([1], [2, 2, 2, 2, 2, 2, 2, 2, 2, 2, 3]) \<and>
   split_of_distinct_dates (map fst unbalanced_index) = Inr 3"
  by (simp add: pools_eval unbalanced_module_def unbalanced_index_def
      split_of_distinct_dates_def)

text \<open>
  Claim C3, amended.  When \<open>train_val_pool_params\<close> returns, the validation start is the
  date of the row at position nine tenths (rounded down) of the number of rows that are
  left after dropping the incomplete ones, counted in row order: a percentile of the rows,
  not of the distinct dates.  The validation block consists of the rows with dates at or
  after the validation start.  The training block consists of the rows with dates up to
  the training end, which is a date of the data before the validation start, so every
  training row is earlier than the validation start.
\<close>

theorem train_val_split_at_row_position:
  assumes "train_val_pool_params ex p = Inr (tr, va)"
  shows "\<exists>joined val_start label_days train_end.
           get_all ex (params_or p (ex_params ex)) = Inr joined \<and>
           get_level_values_0 (dropna joined) \<noteq> [] \<and>
           val_start = get_level_values_0 (dropna joined) !
                         ((length (get_level_values_0 (dropna joined)) * 9) div 10) \<and>
           index (pool_data va) = filter (\<lambda>i. val_start \<le> fst i) (index (dropna joined)) \<and>
           label_days_of (params_or p (ex_params ex)) = Inr label_days \<and>
           train_end_of (get_level_values_0 (dropna joined)) val_start label_days
             = Inr train_end \<and>
           index (pool_data tr) = filter (\<lambda>i. fst i \<le> train_end) (index (dropna joined)) \<and>
           train_end \<in> set (get_level_values_0 (dropna joined)) \<and>
           train_end < val_start \<and>
           (\<forall>i\<in>set (index (pool_data tr)). fst i < val_start)"
proof -
  from train_val_pool_params_Inr [OF assms] obtain joined val_start label_days train_end where
    j: "get_all ex (params_or p (ex_params ex)) = Inr joined"
    and vs: "val_start_of (get_level_values_0 (dropna joined)) = Inr val_start"
    and ld: "label_days_of (params_or p (ex_params ex)) = Inr label_days"
    and te: "train_end_of (get_level_values_0 (dropna joined)) val_start label_days
               = Inr train_end"
    and t: "pool_params ex (Some (params_or p (ex_params ex))) (dropna joined)
             (select_dates (\<lambda>d. d \<le> train_end) (dropna joined)) True = Inr tr"
    and v: "pool_params ex (Some (params_or p (ex_params ex))) (dropna joined)
             (select_dates (\<lambda>d. d \<ge> val_start) (dropna joined)) True = Inr va"
    by blast
  from val_start_of_Inr [OF vs] have ne: "get_level_values_0 (dropna joined) \<noteq> []"
    and pos: "val_start = get_level_values_0 (dropna joined) !
                         ((length (get_level_values_0 (dropna joined)) * 9) div 10)"
    by simp_all
  from train_end_of_Inr [OF te] have mem: "train_end \<in> set (get_level_values_0 (dropna joined))"
    and lt: "train_end < val_start"
    by simp_all
  have iv: "index (pool_data va) = filter (\<lambda>i. val_start \<le> fst i) (index (dropna joined))"
    using pool_params_Inr [OF v] by simp
  have it: "index (pool_data tr) = filter (\<lambda>i. fst i \<le> train_end) (index (dropna joined))"
    using pool_params_Inr [OF t] by simp
  have before: "\<forall>i\<in>set (index (pool_data tr)). fst i < val_start"
    unfolding it using lt by auto
  from j ne pos iv ld te it mem lt before show ?thesis by blast
qed

theorem train_val_split_at_row_position_witness:
  "on_examples unbalanced_module [''A''] 3 (label_scaler_params 1)
     (\<lambda>ex. map_sum id
        (\<lambda>(tr, va). list_all (\<lambda>i. list_all (\<lambda>j. fst i < fst j) (index (pool_data va)))
                      (index (pool_data tr)))
        (train_val_pool_params ex None)) = Inr True"
proof -
  obtain ex where init:
    "Examples_init unbalanced_module [''A''] 3 (label_scaler_params 1) = Inr ex"
    by (simp add: Examples_init_def getattr_feature_def table_module_def
        label_scaler_params_def unbalanced_module_def)
  have "on_examples unbalanced_module [''A''] 3 (label_scaler_params 1)
     (\<lambda>ex. map_sum id (\<lambda>r. ()) (train_val_pool_params ex None)) = Inr ()"
    by (simp add: pools_eval unbalanced_module_def unbalanced_index_def)
  then obtain tr va where tv: "train_val_pool_params ex None = Inr (tr, va)"
    unfolding on_examples_def init by (cases "train_val_pool_params ex None") auto
  from train_val_split_at_row_position [OF tv] obtain joined val_start where
    iv: "index (pool_data va) = filter (\<lambda>i. val_start \<le> fst i) (index (dropna joined))"
    and before: "\<forall>i\<in>set (index (pool_data tr)). fst i < val_start"
    by blast
  have "list_all (\<lambda>i. list_all (\<lambda>j. fst i < fst j) (index (pool_data va)))
                      (index (pool_data tr))"
    unfolding iv using before by (auto simp: list_all_iff)
  then show ?thesis by (simp add: on_examples_def init tv)
qed

subsection \<open>The end of the training block\<close>

text \<open>
  Claim C1, as the specification states it, is refuted by five consecutive dates of one
  security with a label horizon of two days.  The validation block is the row of date 5,
  and the training block has the rows of dates 1, 2 and 3.  The claim needs at least two
  distinct dates strictly between the last training date and the first validation date,
  that is, both date 3 and date 4 left out of training; there is only date 4.
\<close>

theorem train_end_strictly_earlier_counterexample:
  "map_sum id (\<lambda>(tr, va). (map fst (index (pool_data tr)), map fst (index (pool_data va))))
     (on_examples five_days_module [''A''] 5 (label_scaler_params 2)
        (\<lambda>ex. train_val_pool_params ex None))
     = Inr ([1, 2, 3], [5]) \<and>
   dates_between [1, 2, 3, 4, 5] 3 5 = [4] \<and>
   \<not> 2 \<le> length (dates_between [1, 2, 3, 4, 5] 3 5)"
  by (simp add: pools_eval five_days_module_def dates_between_def)

text \<open>
  Claim C1, amended.  Let the rows left after dropping the incomplete ones be in date
  order and the label horizon \<open>label_days\<close> be at least 1.  When \<open>train_val_pool_params\<close>
  returns, both blocks have rows, the training block consists of the rows with dates up
  to its maximum date, that maximum is earlier than the minimum date of the validation
  block, and exactly \<open>label_days - 1\<close> distinct dates of the data lie strictly between the
  two: the maximum training date is the \<open>label_days\<close>-th distinct date before the validation
  start, and the last \<open>label_days - 1\<close> distinct dates before the split are left out of
  training.
\<close>

theorem train_end_label_days_before_split:
  assumes "train_val_pool_params ex p = Inr (tr, va)"
    and "get_all ex (params_or p (ex_params ex)) = Inr joined"
    and "label_days_of (params_or p (ex_params ex)) = Inr label_days"
    and "1 \<le> label_days"
    and "sorted (get_level_values_0 (dropna joined))"
  shows "index (pool_data tr) \<noteq> [] \<and> index (pool_data va) \<noteq> [] \<and>
         index (pool_data tr) =
           filter (\<lambda>i. fst i \<le> Max (fst ` set (index (pool_data tr)))) (index (dropna joined)) \<and>
         Max (fst ` set (index (pool_data tr))) < Min (fst ` set (index (pool_data va))) \<and>
         length (dates_between (get_level_values_0 (dropna joined))
                   (Max (fst ` set (index (pool_data tr))))
                   (Min (fst ` set (index (pool_data va)))))
           = nat (label_days - 1)"
proof -
  let ?df = "dropna joined"
  let ?dates = "get_level_values_0 ?df"
  from train_val_pool_params_Inr [OF assms(1)] assms(2,3)
  obtain val_start train_end where
    vs: "val_start_of ?dates = Inr val_start"
    and te: "train_end_of ?dates val_start label_days = Inr train_end"
    and t: "pool_params ex (Some (params_or p (ex_params ex))) ?df
             (select_dates (\<lambda>d. d \<le> train_end) ?df) True = Inr tr"
    and v: "pool_params ex (Some (params_or p (ex_params ex))) ?df
             (select_dates (\<lambda>d. d \<ge> val_start) ?df) True = Inr va"
    by auto
  have it: "index (pool_data tr) = filter (\<lambda>i. fst i \<le> train_end) (index ?df)"
    using pool_params_Inr [OF t] by simp
  have iv: "index (pool_data va) = filter (\<lambda>i. val_start \<le> fst i) (index ?df)"
    using pool_params_Inr [OF v] by simp
  from train_end_of_Inr [OF te] have "train_end \<in> set ?dates"
    and lt: "train_end < val_start"
    by blast+
  then have te_mem: "train_end \<in> fst ` set (index ?df)"
    unfolding get_level_values_0_def set_map by blast
  from val_start_of_Inr [OF vs] have "val_start \<in> set ?dates"
    by blast
  then have vs_mem: "val_start \<in> fst ` set (index ?df)"
    unfolding get_level_values_0_def set_map by blast
  have te_in: "train_end \<in> fst ` set (index (pool_data tr))"
    using te_mem unfolding it by auto
  have vs_in: "val_start \<in> fst ` set (index (pool_data va))"
    using vs_mem unfolding iv by auto
  have mx: "Max (fst ` set (index (pool_data tr))) = train_end"
  proof (rule Max_eqI)
    show "finite (fst ` set (index (pool_data tr)))" by simp
    show "\<And>y. y \<in> fst ` set (index (pool_data tr)) \<Longrightarrow> y \<le> train_end"
      unfolding it by auto
    show "train_end \<in> fst ` set (index (pool_data tr))" by (rule te_in)
  qed
  have mn: "Min (fst ` set (index (pool_data va))) = val_start"
  proof (rule Min_eqI)
    show "finite (fst ` set (index (pool_data va)))" by simp
    show "\<And>y. y \<in> fst ` set (index (pool_data va)) \<Longrightarrow> val_start \<le> y"
      unfolding iv by auto
    show "val_start \<in> fst ` set (index (pool_data va))" by (rule vs_in)
  qed
  have ne: "index (pool_data tr) \<noteq> []" "index (pool_data va) \<noteq> []"
    using te_in vs_in by auto
  have between: "length (dates_between ?dates train_end val_start) = nat (label_days - 1)"
    using te assms(4,5) by (rule train_end_of_between)
  show ?thesis
    unfolding mx mn using ne it lt between by simp
qed

theorem train_end_label_days_before_split_witness:
  "on_examples five_days_module [''A''] 5 (label_scaler_params 2)
     (\<lambda>ex. map_sum id
        (\<lambda>(tr, va). length (dates_between [1, 2, 3, 4, 5]
                               (Max (fst ` set (index (pool_data tr))))
                               (Min (fst ` set (index (pool_data va))))))
        (train_val_pool_params ex None)) = Inr 1"
proof -
  obtain ex where init:
    "Examples_init five_days_module [''A''] 5 (label_scaler_params 2) = Inr ex"
    by (simp add: Examples_init_def getattr_feature_def table_module_def
        label_scaler_params_def five_days_module_def)
  have "on_examples five_days_module [''A''] 5 (label_scaler_params 2)
     (\<lambda>ex. map_sum id (\<lambda>r. ()) (train_val_pool_params ex None)) = Inr ()"
    by (simp add: pools_eval five_days_module_def)
  then obtain tr va where tv: "train_val_pool_params ex None = Inr (tr, va)"
    unfolding on_examples_def init by (cases "train_val_pool_params ex None") auto
  have "on_examples five_days_module [''A''] 5 (label_scaler_params 2)
     (\<lambda>ex. map_sum id (\<lambda>j. get_level_values_0 (dropna j))
        (get_all ex (params_or None (ex_params ex)))) = Inr [1, 2, 3, 4, 5]"
    by (simp add: pools_eval five_days_module_def)
  then obtain joined where j: "get_all ex (params_or None (ex_params ex)) = Inr joined"
    and d: "get_level_values_0 (dropna joined) = [1, 2, 3, 4, 5]"
    unfolding on_examples_def init
    by (cases "get_all ex (params_or None (ex_params ex))") auto
  have "on_examples five_days_module [''A''] 5 (label_scaler_params 2)
     (\<lambda>ex. label_days_of (params_or None (ex_params ex))) = Inr 2"
    by (simp add: pools_eval five_days_module_def)
  then have l: "label_days_of (params_or None (ex_params ex)) = Inr 2"
    unfolding on_examples_def init by simp
  have s: "sorted (get_level_values_0 (dropna joined))"
    unfolding d by simp
  from train_end_label_days_before_split [OF tv j l _ s]
  have "length (dates_between (get_level_values_0 (dropna joined))
                   (Max (fst ` set (index (pool_data tr))))
                   (Min (fst ` set (index (pool_data va))))) = nat (2 - 1)"
    by simp
  then show ?thesis by (simp add: on_examples_def init tv d)
qed

section \<open>Properties of the forecast\<close>

subsection \<open>The cache guard\<close>

lemma test_model_params_neq: "test_model_params 0.1 \<noteq> test_model_params 0.11"
proof
  assume "test_model_params 0.1 = test_model_params 0.11"
  then have "test_model_params 0.1 ''learning_rate'' = test_model_params 0.11 ''learning_rate''"
    by simp
  then show False by (simp add: test_model_params_def)
qed

text \<open>
  Claim C7.  \<open>validate_cache\<close> holds of a forecast with its own securities, date and
  parameters; it holds exactly when the requested security tuple, the requested date and
  the requested parameters are equal to the cached ones, the tuple in order and the
  parameters in depth; and it fails as soon as one of the three differs from the cached
  one, the other two being the cached ones.  It is a predicate of its four arguments:
  there is no state for it to change.
\<close>

theorem validate_cache_iff_equal:
  "validate_cache F (fc_tickers F) (fc_date F) (fc_params F) \<and>
   (validate_cache F s d q \<longleftrightarrow> fc_tickers F = s \<and> fc_date F = d \<and> fc_params F = q) \<and>
   (s \<noteq> fc_tickers F \<longrightarrow> \<not> validate_cache F s (fc_date F) (fc_params F)) \<and>
   (d \<noteq> fc_date F \<longrightarrow> \<not> validate_cache F (fc_tickers F) d (fc_params F)) \<and>
   (q \<noteq> fc_params F \<longrightarrow> \<not> validate_cache F (fc_tickers F) (fc_date F) q)"
  by (auto simp: validate_cache_def)

theorem validate_cache_iff_equal_witness:
  "validate_cache test_forecast [''RTKM'', ''UPRO'', ''DSKY''] 17971
     (demo_params, test_model_params 0.1) \<and>
   \<not> validate_cache test_forecast [''RTKM'', ''UPRO'', ''DSKY'', ''FEES''] 17971
     (demo_params, test_model_params 0.1) \<and>
   \<not> validate_cache test_forecast [''RTKM'', ''UPRO'', ''DSKY''] 17970
     (demo_params, test_model_params 0.1) \<and>
   \<not> validate_cache test_forecast [''RTKM'', ''UPRO'', ''DSKY''] 17971
     (demo_params, test_model_params 0.11)"
proof -
  have t: "fc_tickers test_forecast = [''RTKM'', ''UPRO'', ''DSKY'']"
    and d: "fc_date test_forecast = 17971"
    and q: "fc_params test_forecast = (demo_params, test_model_params 0.1)"
    by (simp_all add: test_forecast_def)
  have ns: "[''RTKM'', ''UPRO'', ''DSKY'', ''FEES''] \<noteq> fc_tickers test_forecast"
    and nd: "(17970::int) \<noteq> fc_date test_forecast"
    and nq: "(demo_params, test_model_params 0.11) \<noteq> fc_params test_forecast"
    using test_model_params_neq by (simp_all add: test_forecast_def)
  note w = validate_cache_iff_equal [of test_forecast
      "[''RTKM'', ''UPRO'', ''DSKY'', ''FEES'']" 17970 "(demo_params, test_model_params 0.11)"]
  from w have "validate_cache test_forecast (fc_tickers test_forecast)
      (fc_date test_forecast) (fc_params test_forecast)" by blast
  moreover from w ns have "\<not> validate_cache test_forecast [''RTKM'', ''UPRO'', ''DSKY'', ''FEES'']
      (fc_date test_forecast) (fc_params test_forecast)" by blast
  moreover from w nd have "\<not> validate_cache test_forecast (fc_tickers test_forecast)
      17970 (fc_params test_forecast)" by blast
  moreover from w nq have "\<not> validate_cache test_forecast (fc_tickers test_forecast)
      (fc_date test_forecast) (demo_params, test_model_params 0.11)" by blast
  ultimately show ?thesis unfolding t d q by blast
qed

subsection \<open>The consistency check of the covariance\<close>

lemma validate_cov_mismatch:
  assumes "iloc_col 0 (pool_data pl) = Inr basis"
    and "\<not> list_all2 (matches_basis rtol) (cov_diag cov) basis"
  shows "validate_cov rtol cov pl = Inl (POptimizerError cov_mismatch_text)"
  using assms by (simp add: validate_cov_def)

lemma test_pool_basis: "iloc_col 0 (pool_data test_pool) = Inr [Some 1, Some 2, Some 3]"
  by (simp add: test_pool_def iloc_col_def)

lemma test_cov_diag: "cov_diag test_cov = [1, 4, 9.1]"
  by (simp add: cov_diag_def test_cov_def upt_rec)

text \<open>
  Claim C4.  With a tolerance that is not negative, \<open>validate_cov\<close> returns without error
  whenever every diagonal entry of the covariance is exactly the square of the
  corresponding value of the first data column of the pool.  It fails with the
  \<open>POptimizerError\<close> whose message is the text about the mismatch whenever some diagonal
  entry differs from the square of the corresponding value by more than the tolerance
  times that square.  With a tolerance of at most one hundredth, the diagonal 1, 4, 9.1
  against the values 1, 2, 3 fails.  When the check fails, \<open>ledoit_wolf_cov\<close> and
  \<open>get_forecast\<close> return that error and no forecast.
\<close>

theorem validate_cov_exact_passes_mismatch_fails:
  "(0 \<le> rtol \<and> iloc_col 0 (pool_data pl) = Inr (map Some xs) \<and>
      cov_diag cov = map (\<lambda>x. x\<^sup>2) xs
      \<longrightarrow> validate_cov rtol cov pl = Inr ()) \<and>
   (iloc_col 0 (pool_data pl) = Inr basis \<and> length (cov_diag cov) = length basis \<and>
      i < length basis \<and> basis ! i = Some x \<and> rtol * \<bar>x\<^sup>2\<bar> < \<bar>cov_diag cov ! i - x\<^sup>2\<bar>
      \<longrightarrow> validate_cov rtol cov pl = Inl (POptimizerError cov_mismatch_text)) \<and>
   (rtol \<le> 1 / 100
      \<longrightarrow> validate_cov rtol test_cov test_pool = Inl (POptimizerError cov_mismatch_text)) \<and>
   (validate_cov rtol (fst estimate) pl = Inl e
      \<longrightarrow> ledoit_wolf_cov rtol estimate pl = Inl e \<and>
          get_forecast rtol tickers date params pl valid_result mean estimate = Inl e)"
proof (intro conjI impI)
  assume a: "0 \<le> rtol \<and> iloc_col 0 (pool_data pl) = Inr (map Some xs) \<and>
      cov_diag cov = map (\<lambda>x. x\<^sup>2) xs"
  then have "list_all2 (matches_basis rtol) (cov_diag cov) (map Some xs)"
    by (simp add: list_all2_conv_all_nth matches_basis_def)
  with a show "validate_cov rtol cov pl = Inr ()"
    by (simp add: validate_cov_def)
next
  assume a: "iloc_col 0 (pool_data pl) = Inr basis \<and> length (cov_diag cov) = length basis \<and>
      i < length basis \<and> basis ! i = Some x \<and> rtol * \<bar>x\<^sup>2\<bar> < \<bar>cov_diag cov ! i - x\<^sup>2\<bar>"
  then have "\<not> matches_basis rtol (cov_diag cov ! i) (basis ! i)"
    by (simp add: matches_basis_def)
  with a have "\<not> list_all2 (matches_basis rtol) (cov_diag cov) basis"
    by (auto simp: list_all2_conv_all_nth)
  with a show "validate_cov rtol cov pl = Inl (POptimizerError cov_mismatch_text)"
    by (simp add: validate_cov_mismatch)
next
  assume "rtol \<le> 1 / 100"
  then show "validate_cov rtol test_cov test_pool = Inl (POptimizerError cov_mismatch_text)"
    by (simp add: validate_cov_def test_pool_basis test_cov_diag matches_basis_def)
next
  assume a: "validate_cov rtol (fst estimate) pl = Inl e"
  then show "ledoit_wolf_cov rtol estimate pl = Inl e"
    by (simp add: ledoit_wolf_cov_def)
  from a show "get_forecast rtol tickers date params pl valid_result mean estimate = Inl e"
    by (simp add: get_forecast_def ledoit_wolf_cov_def)
qed

theorem validate_cov_exact_passes_mismatch_fails_witness:
  "validate_cov (1 / 100000) [[1, 0, 0], [0, 4, 0], [0, 0, 9]] test_pool = Inr () \<and>
   validate_cov (1 / 100000) test_cov test_pool = Inl (POptimizerError cov_mismatch_text) \<and>
   get_forecast (1 / 100000) [''RTKM'', ''UPRO'', ''DSKY''] 17971 (test_model_params 0.1)
     test_pool \<lparr>dg_feature_importance = [], dg_r = 0, dg_r_rang = 0, dg_t = 0\<rparr>
     [0, 0, 0] (test_cov, 0, 1) = Inl (POptimizerError cov_mismatch_text)"
proof -
  let ?exact = "[[1, 0, 0], [0, 4, 0], [0, 0, 9::real]]"
  note w = validate_cov_exact_passes_mismatch_fails
    [where rtol = "1 / 100000" and pl = test_pool and xs = "[1, 2, 3]" and cov = ?exact
       and estimate = "(test_cov, 0, 1)" and e = "POptimizerError cov_mismatch_text"
       and tickers = "[''RTKM'', ''UPRO'', ''DSKY'']" and date = 17971
       and params = "test_model_params 0.1" and mean = "[0, 0, 0]"
       and valid_result = "\<lparr>dg_feature_importance = [], dg_r = 0, dg_r_rang = 0, dg_t = 0\<rparr>"]
  have h1: "(0::real) \<le> 1 / 100000 \<and>
      iloc_col 0 (pool_data test_pool) = Inr (map Some [1, 2, 3]) \<and>
      cov_diag ?exact = map (\<lambda>x. x\<^sup>2) [1, 2, 3]"
    by (simp add: test_pool_basis cov_diag_def upt_rec)
  have h3: "(1::real) / 100000 \<le> 1 / 100" by simp
  from w h1 have c1: "validate_cov (1 / 100000) ?exact test_pool = Inr ()" by blast
  note m = validate_cov_exact_passes_mismatch_fails
    [where rtol = "1 / 100000" and pl = test_pool and cov = test_cov
       and basis = "[Some 1, Some 2, Some 3]" and i = 2 and x = 3]
  have h2: "iloc_col 0 (pool_data test_pool) = Inr [Some 1, Some 2, Some 3] \<and>
      length (cov_diag test_cov) = length [Some 1, Some 2, Some (3::real)] \<and>
      2 < length [Some 1, Some 2, Some (3::real)] \<and>
      [Some 1, Some 2, Some 3] ! 2 = Some (3::real) \<and>
      1 / 100000 * \<bar>3\<^sup>2\<bar> < \<bar>cov_diag test_cov ! 2 - (3::real)\<^sup>2\<bar>"
    by (simp add: test_pool_basis test_cov_diag)
  from m [THEN conjunct2, THEN conjunct1] h2
  have c2: "validate_cov (1 / 100000) test_cov test_pool
      = Inl (POptimizerError cov_mismatch_text)" by (rule mp)
  from w h3 have "validate_cov (1 / 100000) test_cov test_pool
      = Inl (POptimizerError cov_mismatch_text)" by blast
  then have "validate_cov (1 / 100000) (fst (test_cov, 0::real, 1::real)) test_pool
      = Inl (POptimizerError cov_mismatch_text)" by simp
  with w have c3: "get_forecast (1 / 100000) [''RTKM'', ''UPRO'', ''DSKY''] 17971
     (test_model_params 0.1) test_pool
     \<lparr>dg_feature_importance = [], dg_r = 0, dg_r_rang = 0, dg_t = 0\<rparr>
     [0, 0, 0] (test_cov, 0, 1) = Inl (POptimizerError cov_mismatch_text)" by blast
  from c1 c2 c3 show ?thesis by blast
qed

end
